theory Spec2Isabelle
  imports Complex_Main "HOL-Library.Word"
begin

section \<open>The emotion detection app: app.py\<close>

text \<open>
  A shallow embedding of \<^verbatim>\<open>src/app.py\<close>. The program is glue code around three
  libraries: a database driver (sqlite3 or psycopg2), a face detector (MTCNN) and an
  emotion recogniser (EmotiEffLib), driven by a Streamlit page. The libraries are
  modelled as follows.

  \<^item> The two databases are part of the world: a catalogue of schema objects, the rows of
    the table \<^verbatim>\<open>usage\<close> and the id sequence. A connection is a handle on one of them.
    Every driver call first reads one entry of a fault tape carried by the world:
    \<open>Some msg\<close> makes the call raise the backend's error with that message, \<open>None\<close>
    (or an empty tape) lets it proceed. The four SQL statements of the source get their
    usual meaning (\<open>sql_exec\<close>) and take effect when they are executed; a commit is a
    driver call, and what a failed commit rolls back is outside the model. Before a
    statement is sent the driver adapts its parameters: psycopg2 refuses a string with a
    NUL character with a \<^verbatim>\<open>ValueError\<close>, which is not one of its own errors. Strings are
    lists of characters that the driver can encode.
  \<^item> The detector and the recogniser are parameters: their outputs are inputs of the
    model. Constructing one is recorded in the world, so that the number of model
    constructions can be counted.
  \<^item> Everything the page shows is appended to the world's list of Streamlit events; the
    widget values of one run are an input record.
  \<^item> Floating point numbers (box coordinates, probabilities, scores) are real numbers;
    NaN and rounding are outside the model.
\<close>

subsection \<open>Exceptions and programs\<close>

datatype exn =
    Psycopg2_Error string
  | Sqlite3_Error string
  | AttributeError string
  | KeyError string
  | IndexError string
  | ValueError string
  | UnidentifiedImageError string

fun exn_str :: "exn \<Rightarrow> string" where
  "exn_str (Psycopg2_Error m) = m"
| "exn_str (Sqlite3_Error m) = m"
| "exn_str (AttributeError m) = m"
| "exn_str (KeyError m) = m"
| "exn_str (IndexError m) = m"
| "exn_str (ValueError m) = m"
| "exn_str (UnidentifiedImageError m) = m"

text \<open>\<^verbatim>\<open>except psycopg2.Error\<close> and \<^verbatim>\<open>except Exception\<close>.\<close>

fun is_psycopg2_Error :: "exn \<Rightarrow> bool" where
  "is_psycopg2_Error (Psycopg2_Error m) = True"
| "is_psycopg2_Error e = False"

definition is_Exception :: "exn \<Rightarrow> bool" where
  "is_Exception e = True"

type_synonym bytes = "8 word list"

type_synonym pixel = "8 word list"

text \<open>An image array of shape (height, width, channels): rows of pixels.\<close>

type_synonym frame = "pixel list list"

subsection \<open>The database\<close>

datatype schema_obj =
    Table string
  | Index string string string bool

fun obj_name :: "schema_obj \<Rightarrow> string" where
  "obj_name (Table t) = t"
| "obj_name (Index n t c d) = n"

record usage_row =
  col_id :: nat
  col_name :: string
  col_timestamp :: string
  col_image :: bytes
  col_emotion :: string
  col_confidence :: real

record db =
  catalog :: "schema_obj list"
  usage_rows :: "usage_row list"
  id_seq :: nat

definition empty_db :: db where
  "empty_db = \<lparr>catalog = [], usage_rows = [], id_seq = 0\<rparr>"

text \<open>The four statement shapes of the source.\<close>

datatype stmt =
    Create_table_if_not_exists string
  | Create_index_if_not_exists string string string bool
  | Insert_into_usage string string bytes string real
  | Select_usage_order_by_id_desc_limit nat

type_synonym display_row = "string \<times> string \<times> string \<times> real"

definition display :: "usage_row \<Rightarrow> display_row" where
  "display r = (col_name r, col_timestamp r, col_emotion r, col_confidence r)"

fun sql_exec :: "stmt \<Rightarrow> db \<Rightarrow> string + (display_row list \<times> db)" where
  "sql_exec (Create_table_if_not_exists t) d =
     Inr ([], if t \<in> set (map obj_name (catalog d)) then d
              else d\<lparr>catalog := catalog d @ [Table t]\<rparr>)"
| "sql_exec (Create_index_if_not_exists n t c dsc) d =
     (if Table t \<notin> set (catalog d) then Inl (''relation does not exist: '' @ t)
      else Inr ([], if n \<in> set (map obj_name (catalog d)) then d
                    else d\<lparr>catalog := catalog d @ [Index n t c dsc]\<rparr>))"
| "sql_exec (Insert_into_usage n ts img e c) d =
     (if Table ''usage'' \<notin> set (catalog d) then Inl ''no such table: usage''
      else Inr ([], d\<lparr>usage_rows := usage_rows d @
                        [\<lparr>col_id = Suc (id_seq d), col_name = n, col_timestamp = ts,
                          col_image = img, col_emotion = e, col_confidence = c\<rparr>],
                      id_seq := Suc (id_seq d)\<rparr>))"
| "sql_exec (Select_usage_order_by_id_desc_limit k) d =
     (if Table ''usage'' \<notin> set (catalog d) then Inl ''no such table: usage''
      else Inr (take k (map display (rev (sort_key col_id (usage_rows d)))), d))"

subsection \<open>The world\<close>

text \<open>What Streamlit is asked to show, in order.\<close>

datatype content =
    Plain string
  | Prediction string real
  | History_line string string string real

datatype st_event =
    St_set_page_config string
  | St_title string
  | St_write content
  | St_error string
  | St_warning string
  | St_info string
  | St_success content
  | St_toast string
  | St_expander string
  | St_text_input string
  | St_checkbox string
  | St_selectbox string "string list"
  | St_radio string "string list"
  | St_file_uploader string
  | St_camera_input string
  | St_image string
  | St_button string

record mtcnn =
  keep_all :: bool
  post_process :: bool
  min_face_size :: nat
  mtcnn_device :: string

datatype model_event =
    MTCNN_built mtcnn
  | Recognizer_built string string string

record world =
  database_url :: "string option"
  pg_store :: db
  sqlite_store :: db
  faults :: "string option list"
  utcnow_isoformat :: string
  st_events :: "st_event list"
  models_built :: "model_event list"

text \<open>\<^verbatim>\<open>USE_POSTGRES = "DATABASE_URL" in os.environ\<close>\<close>

definition USE_POSTGRES :: "world \<Rightarrow> bool" where
  "USE_POSTGRES w = (database_url w \<noteq> None)"

type_synonym 'a prog = "world \<Rightarrow> (exn + 'a) \<times> world"

definition ret :: "'a \<Rightarrow> 'a prog" where
  "ret x w = (Inr x, w)"

definition raise :: "exn \<Rightarrow> 'a prog" where
  "raise e w = (Inl e, w)"

definition bindp :: "'a prog \<Rightarrow> ('a \<Rightarrow> 'b prog) \<Rightarrow> 'b prog" where
  "bindp m f w = (case m w of (Inl e, w') \<Rightarrow> (Inl e, w') | (Inr x, w') \<Rightarrow> f x w')"

definition try_except :: "'a prog \<Rightarrow> (exn \<Rightarrow> bool) \<Rightarrow> (exn \<Rightarrow> 'a prog) \<Rightarrow> 'a prog" where
  "try_except body catches handler w =
     (case body w of
        (Inl e, w') \<Rightarrow> if catches e then handler e w' else (Inl e, w')
      | (Inr x, w') \<Rightarrow> (Inr x, w'))"

definition lift :: "exn + 'a \<Rightarrow> 'a prog" where
  "lift r w = (r, w)"

fun for_each :: "'a list \<Rightarrow> ('a \<Rightarrow> unit prog) \<Rightarrow> unit prog" where
  "for_each [] f = ret ()"
| "for_each (x # xs) f = bindp (f x) (\<lambda>_. for_each xs f)"

definition st :: "st_event \<Rightarrow> unit prog" where
  "st ev w = (Inr (), w\<lparr>st_events := st_events w @ [ev]\<rparr>)"

text \<open>Reading the world: the module constant \<^verbatim>\<open>USE_POSTGRES\<close>, the clock
  (\<^verbatim>\<open>datetime.utcnow().isoformat()\<close>) and \<^verbatim>\<open>os.environ["DATABASE_URL"]\<close>, which raises
  KeyError when the variable is not set.\<close>

definition reads :: "(world \<Rightarrow> 'a) \<Rightarrow> 'a prog" where
  "reads f w = (Inr (f w), w)"

definition environ_DATABASE_URL :: "string prog" where
  "environ_DATABASE_URL w =
     (case database_url w of
        None \<Rightarrow> (Inl (KeyError ''DATABASE_URL''), w)
      | Some url \<Rightarrow> (Inr url, w))"

subsection \<open>The database drivers\<close>

datatype connection = Pg_conn | Sqlite_conn

fun backend_error :: "connection \<Rightarrow> string \<Rightarrow> exn" where
  "backend_error Pg_conn m = Psycopg2_Error m"
| "backend_error Sqlite_conn m = Sqlite3_Error m"

fun store_of :: "connection \<Rightarrow> world \<Rightarrow> db" where
  "store_of Pg_conn w = pg_store w"
| "store_of Sqlite_conn w = sqlite_store w"

fun set_store :: "connection \<Rightarrow> db \<Rightarrow> world \<Rightarrow> world" where
  "set_store Pg_conn d w = w\<lparr>pg_store := d\<rparr>"
| "set_store Sqlite_conn d w = w\<lparr>sqlite_store := d\<rparr>"

definition driver_call :: "connection \<Rightarrow> unit prog" where
  "driver_call c w =
     (case faults w of
        [] \<Rightarrow> (Inr (), w)
      | None # fs \<Rightarrow> (Inr (), w\<lparr>faults := fs\<rparr>)
      | Some m # fs \<Rightarrow> (Inl (backend_error c m), w\<lparr>faults := fs\<rparr>))"

text \<open>\<^verbatim>\<open>psycopg2.connect(url)\<close> and \<^verbatim>\<open>sqlite3.connect(path, check_same_thread=False)\<close>\<close>

definition psycopg2_connect :: "string \<Rightarrow> connection prog" where
  "psycopg2_connect url = bindp (driver_call Pg_conn) (\<lambda>_. ret Pg_conn)"

definition sqlite3_connect :: "string \<Rightarrow> connection prog" where
  "sqlite3_connect path = bindp (driver_call Sqlite_conn) (\<lambda>_. ret Sqlite_conn)"

text \<open>
  \<^verbatim>\<open>conn.cursor()\<close> and \<^verbatim>\<open>conn.commit()\<close> on a reference that may be \<^verbatim>\<open>None\<close>: the attribute
  access on \<^verbatim>\<open>None\<close> raises AttributeError.
\<close>

fun cursor :: "connection option \<Rightarrow> connection prog" where
  "cursor None = raise (AttributeError ''NoneType object has no attribute cursor'')"
| "cursor (Some c) = bindp (driver_call c) (\<lambda>_. ret c)"

fun commit :: "connection option \<Rightarrow> unit prog" where
  "commit None = raise (AttributeError ''NoneType object has no attribute commit'')"
| "commit (Some c) = driver_call c"

text \<open>
  What a driver does with the parameters of a statement before the statement is sent.
  psycopg2 refuses a string parameter that contains the NUL character with a
  \<^verbatim>\<open>ValueError\<close> (\<^verbatim>\<open>A string literal cannot contain NUL (0x00) characters.\<close>), which is
  not a \<^verbatim>\<open>psycopg2.Error\<close>; sqlite3 binds such a string as it is. Of the four statements
  only the INSERT has parameters: the name, the timestamp and the emotion are strings.
\<close>

definition nul_free :: "string \<Rightarrow> bool" where
  "nul_free s = (CHR 0x00 \<notin> set s)"

fun string_params :: "stmt \<Rightarrow> string list" where
  "string_params (Insert_into_usage n ts img e c) = [n, ts, e]"
| "string_params s = []"

definition adapt :: "connection \<Rightarrow> stmt \<Rightarrow> unit prog" where
  "adapt c s =
     (if c = Pg_conn \<and> \<not> list_all nul_free (string_params s)
      then raise (ValueError ''A string literal cannot contain NUL (0x00) characters.'')
      else ret ())"

text \<open>\<^verbatim>\<open>cur.execute(statement, parameters)\<close>: the parameters are adapted, then the statement
  makes its round trip and takes effect.\<close>

definition execute :: "connection \<Rightarrow> stmt \<Rightarrow> display_row list prog" where
  "execute c s =
     bindp (adapt c s) (\<lambda>_.
     bindp (driver_call c) (\<lambda>_ w.
       case sql_exec s (store_of c w) of
         Inl m \<Rightarrow> (Inl (backend_error c m), w)
       | Inr (rs, d) \<Rightarrow> (Inr rs, set_store c d w)))"

definition fetchall :: "connection \<Rightarrow> display_row list \<Rightarrow> display_row list prog" where
  "fetchall c rs = bindp (driver_call c) (\<lambda>_. ret rs)"

subsection \<open>Storage: init\_database, save\_result, render\_history\<close>

definition init_database :: "connection option prog" where
  "init_database =
     bindp (reads USE_POSTGRES) (\<lambda>use_postgres.
     if use_postgres then
       try_except
         (bindp environ_DATABASE_URL (\<lambda>url.
          bindp (psycopg2_connect url) (\<lambda>conn.
          bindp (cursor (Some conn)) (\<lambda>cur.
          bindp (execute cur (Create_table_if_not_exists ''usage'')) (\<lambda>_.
          bindp (execute cur
                  (Create_index_if_not_exists ''idx_timestamp'' ''usage'' ''timestamp'' True)) (\<lambda>_.
          bindp (execute cur
                  (Create_index_if_not_exists ''idx_name'' ''usage'' ''name'' False)) (\<lambda>_.
          bindp (commit (Some conn)) (\<lambda>_.
          ret (Some conn)))))))))
         is_psycopg2_Error
         (\<lambda>e. bindp (st (St_error (''PostgreSQL connection error: '' @ exn_str e))) (\<lambda>_.
              ret None))
     else
       bindp (sqlite3_connect ''emotion_app.db'') (\<lambda>conn.
       bindp (cursor (Some conn)) (\<lambda>cur.
       bindp (execute cur (Create_table_if_not_exists ''usage'')) (\<lambda>_.
       bindp (commit (Some conn)) (\<lambda>_.
       ret (Some conn))))))"

definition save_result ::
  "connection option \<Rightarrow> string \<Rightarrow> bytes \<Rightarrow> string \<Rightarrow> real \<Rightarrow> string option \<Rightarrow> unit prog" where
  "save_result conn nm image_bytes emo conf timestamp =
     bindp (case timestamp of None \<Rightarrow> reads utcnow_isoformat | Some t \<Rightarrow> ret t) (\<lambda>ts.
     bindp (reads USE_POSTGRES) (\<lambda>use_postgres.
     if use_postgres \<and> conn \<noteq> None then
       try_except
         (bindp (cursor conn) (\<lambda>cur.
          bindp (execute cur (Insert_into_usage nm ts image_bytes emo conf)) (\<lambda>_.
          commit conn)))
         is_psycopg2_Error
         (\<lambda>e. st (St_error (''Database error: '' @ exn_str e)))
     else
       bindp (cursor conn) (\<lambda>cur.
       bindp (execute cur (Insert_into_usage nm ts image_bytes emo conf)) (\<lambda>_.
       commit conn))))"

definition render_history :: "connection option \<Rightarrow> unit prog" where
  "render_history conn =
     (if conn = None then st (St_error ''Database connection failed'')
      else
        bindp (st (St_expander ''See usage history'')) (\<lambda>_.
        try_except
          (bindp (cursor conn) (\<lambda>cur.
           bindp (execute cur (Select_usage_order_by_id_desc_limit 100)) (\<lambda>rs.
           bindp (fetchall cur rs) (\<lambda>rows.
             if rows \<noteq> [] then
               bindp (st (St_write (Plain ''## Recent entries''))) (\<lambda>_.
               for_each rows (\<lambda>(nm, ts, emo, conf). st (St_write (History_line ts nm emo conf))))
             else st (St_info ''No records found.'')))))
          is_Exception
          (\<lambda>e. st (St_error (''Error fetching history: '' @ exn_str e)))))"

subsection \<open>Inference: detect\_first\_face, classify\_emotion\<close>

text \<open>A bounding box \<^verbatim>\<open>[x1, y1, x2, y2]\<close>; \<^verbatim>\<open>mtcnn.detect\<close> returns the boxes and their
  probabilities, each of which may be \<^verbatim>\<open>None\<close>.\<close>

type_synonym box = "real \<times> real \<times> real \<times> real"

type_synonym detection = "box list option \<times> real list option"

type_synonym features = "real list"

record recognizer =
  idx_to_emotion_class :: "(nat \<times> string) list"
  extract_features :: "frame \<Rightarrow> features"
  classify_emotions :: "features \<Rightarrow> string list \<times> real list list"

text \<open>The library calls whose results the program only passes on.\<close>

record libs =
  mtcnn_detect :: "mtcnn \<Rightarrow> frame \<Rightarrow> detection"
  EmotiEffLibRecognizer :: "string \<Rightarrow> string \<Rightarrow> string \<Rightarrow> recognizer"
  get_model_list :: "string list"
  image_open_rgb :: "bytes \<Rightarrow> exn + frame"

text \<open>\<^verbatim>\<open>MTCNN(keep_all=..., post_process=..., min_face_size=..., device=...)\<close>: a new
  detector object; the construction is recorded.\<close>

definition MTCNN :: "bool \<Rightarrow> bool \<Rightarrow> nat \<Rightarrow> string \<Rightarrow> mtcnn prog" where
  "MTCNN ka pp mfs dev w =
     (let m = \<lparr>keep_all = ka, post_process = pp, min_face_size = mfs, mtcnn_device = dev\<rparr>
      in (Inr m, w\<lparr>models_built := models_built w @ [MTCNN_built m]\<rparr>))"

definition new_recognizer :: "libs \<Rightarrow> string \<Rightarrow> string \<Rightarrow> string \<Rightarrow> recognizer prog" where
  "new_recognizer L engine model_name device w =
     (Inr (EmotiEffLibRecognizer L engine model_name device),
      w\<lparr>models_built := models_built w @ [Recognizer_built engine model_name device]\<rparr>)"

text \<open>\<^verbatim>\<open>np.argmax\<close>: the first index of the largest entry; ValueError on an empty array.\<close>

fun argmax_from :: "real list \<Rightarrow> nat \<Rightarrow> real \<Rightarrow> nat \<Rightarrow> nat" where
  "argmax_from [] i best best_i = best_i"
| "argmax_from (x # xs) i best best_i =
     (if best < x then argmax_from xs (Suc i) x i else argmax_from xs (Suc i) best best_i)"

definition np_argmax :: "real list \<Rightarrow> exn + nat" where
  "np_argmax ps =
     (case ps of
        [] \<Rightarrow> Inl (ValueError ''attempt to get argmax of an empty sequence'')
      | p # rest \<Rightarrow> Inr (argmax_from rest 1 p 0))"

definition np_index :: "'a list \<Rightarrow> nat \<Rightarrow> exn + 'a" where
  "np_index xs i = (if i < length xs then Inr (xs ! i) else Inl (IndexError ''index out of bounds''))"

text \<open>\<^verbatim>\<open>.astype(int)\<close> on a float: truncation towards zero.\<close>

definition astype_int :: "real \<Rightarrow> int" where
  "astype_int r = (if 0 \<le> r then \<lfloor>r\<rfloor> else \<lceil>r\<rceil>)"

text \<open>
  A slice \<^verbatim>\<open>xs[a:b]\<close> with Python's rules: a negative bound counts from the end, every
  bound is clamped to the length, and the slice is empty when the start is not before the
  stop.
\<close>

definition slice_bound :: "int \<Rightarrow> nat \<Rightarrow> nat" where
  "slice_bound i n = (if i < 0 then nat (max (i + int n) 0) else min (nat i) n)"

definition py_slice :: "int \<Rightarrow> int \<Rightarrow> 'a list \<Rightarrow> 'a list" where
  "py_slice a b xs =
     (let n = length xs; s = slice_bound a n; e = slice_bound b n
      in take (e - s) (drop s xs))"

text \<open>\<^verbatim>\<open>frame[y1:y2, x1:x2, :]\<close>\<close>

definition crop :: "frame \<Rightarrow> int \<Rightarrow> int \<Rightarrow> int \<Rightarrow> int \<Rightarrow> frame" where
  "crop frame y1 y2 x1 x2 = map (py_slice x1 x2) (py_slice y1 y2 frame)"

definition detect_first_face :: "libs \<Rightarrow> frame \<Rightarrow> string \<Rightarrow> frame option prog" where
  "detect_first_face L frame device =
     bindp (MTCNN False False 40 device) (\<lambda>mtcnn.
       case mtcnn_detect L mtcnn frame of (bounding_boxes, probs) \<Rightarrow>
         (case bounding_boxes of
            None \<Rightarrow> ret None
          | Some bbs \<Rightarrow>
             (case probs of
                None \<Rightarrow> ret None
              | Some ps \<Rightarrow>
                 bindp (lift (np_argmax ps)) (\<lambda>idx.
                 bindp (lift (np_index bbs idx)) (\<lambda>(bx1, by1, bx2, by2).
                   let x1 = astype_int bx1; y1 = astype_int by1;
                       x2 = astype_int bx2; y2 = astype_int by2
                   in if x2 - x1 \<le> 0 \<or> y2 - y1 \<le> 0 then ret None
                      else ret (Some (crop frame y1 y2 x1 x2)))))))"

text \<open>
  The dictionary \<^verbatim>\<open>idx_to_emotion_class\<close> is its list of items in insertion order (the
  keys are distinct). \<^verbatim>\<open>{v: k for k, v in class_map.items()}\<close> stores the items in that
  order, so a later key replaces an earlier one with the same label.
\<close>

definition invert_dict :: "('k \<times> 'v) list \<Rightarrow> ('v \<rightharpoonup> 'k)" where
  "invert_dict items = fold (\<lambda>(k, v) m. m(v \<mapsto> k)) items Map.empty"

definition classify_emotion :: "recognizer \<Rightarrow> frame \<Rightarrow> exn + (string \<times> real)" where
  "classify_emotion recognizer face_img =
     (let features = extract_features recognizer face_img in
      case classify_emotions recognizer features of (labels, scores) \<Rightarrow>
        (case labels of
           [] \<Rightarrow> Inl (IndexError ''list index out of range'')
         | label # _ \<Rightarrow>
            (let class_map = idx_to_emotion_class recognizer;
                 inv_map = invert_dict class_map
             in case inv_map label of
                  None \<Rightarrow> Inl (KeyError label)
                | Some idx \<Rightarrow>
                   (case scores of
                      [] \<Rightarrow> Inl (IndexError ''index 0 is out of bounds'')
                    | row # _ \<Rightarrow>
                       (case np_index row idx of
                          Inl e \<Rightarrow> Inl e
                        | Inr confidence \<Rightarrow> Inr (label, confidence))))))"

subsection \<open>The page: main\<close>

text \<open>The values the widgets return in one run of the script.\<close>

record widgets =
  text_input_name :: string
  checkbox_gpu :: bool
  selectbox_model :: string
  radio_mode :: string
  file_uploader :: "bytes option"
  camera_input :: "bytes option"
  button_save :: bool

definition widget :: "st_event \<Rightarrow> 'a \<Rightarrow> 'a prog" where
  "widget ev v = bindp (st ev) (\<lambda>_. ret v)"

text \<open>Lines 170 to 183: one of the two input modes gives the decoded image and the
  encoded bytes it was decoded from.\<close>

definition acquire_image :: "libs \<Rightarrow> widgets \<Rightarrow> string \<Rightarrow> (frame option \<times> bytes option) prog" where
  "acquire_image L ws mode =
     (if mode = ''Upload Image'' then
        bindp (widget (St_file_uploader ''Upload a face image'') (file_uploader ws)) (\<lambda>uploaded_file.
          case uploaded_file of
            None \<Rightarrow> ret (None, None)
          | Some raw_bytes \<Rightarrow>
             bindp (st (St_image ''Uploaded image'')) (\<lambda>_.
             bindp (lift (image_open_rgb L raw_bytes)) (\<lambda>img.
             ret (Some img, Some raw_bytes))))
      else
        bindp (widget (St_camera_input ''Take a photo'') (camera_input ws)) (\<lambda>picture.
          case picture of
            None \<Rightarrow> ret (None, None)
          | Some raw_bytes \<Rightarrow>
             bindp (st (St_image ''Captured image'')) (\<lambda>_.
             bindp (lift (image_open_rgb L raw_bytes)) (\<lambda>img.
             ret (Some img, Some raw_bytes)))))"

text \<open>Lines 184 to 193.\<close>

definition infer_and_offer_save ::
  "libs \<Rightarrow> widgets \<Rightarrow> connection option \<Rightarrow> recognizer \<Rightarrow> string \<Rightarrow> string \<Rightarrow>
   frame option \<Rightarrow> bytes option \<Rightarrow> unit prog" where
  "infer_and_offer_save L ws conn recognizer nm device img_opt raw_bytes =
     (case img_opt of
        None \<Rightarrow> ret ()
      | Some img \<Rightarrow>
         (case raw_bytes of
            None \<Rightarrow> ret ()
          | Some raw \<Rightarrow>
             if nm = [] then ret ()
             else
               bindp (detect_first_face L img device) (\<lambda>face.
                 case face of
                   None \<Rightarrow> st (St_warning ''No face detected in the image.'')
                 | Some f \<Rightarrow>
                    bindp (lift (classify_emotion recognizer f)) (\<lambda>(emotion, confidence).
                    bindp (st (St_success (Prediction emotion confidence))) (\<lambda>_.
                    bindp (widget (St_button ''Save result'') (button_save ws)) (\<lambda>clicked.
                      if clicked then
                        bindp (save_result conn nm raw emotion confidence None) (\<lambda>_.
                        st (St_toast ''Result saved to database.''))
                      else ret ()))))))"

definition main :: "libs \<Rightarrow> widgets \<Rightarrow> unit prog" where
  "main L ws =
     bindp (st (St_set_page_config ''Emotion Detection App'')) (\<lambda>_.
     bindp (st (St_title ''Emotion Detection App'')) (\<lambda>_.
     bindp (st (St_write (Plain ''Predict a person's emotion from a photograph using a pre-trained EmotiEffLib model.''))) (\<lambda>_.
     bindp init_database (\<lambda>conn.
     bindp (widget (St_text_input ''Your name'') (text_input_name ws)) (\<lambda>nm.
     bindp (widget (St_checkbox ''Use GPU if available'') (checkbox_gpu ws)) (\<lambda>gpu.
     let device = (if gpu then ''cuda'' else ''cpu'') in
     bindp (widget (St_selectbox ''Model'' (get_model_list L)) (selectbox_model ws)) (\<lambda>model_name.
     bindp (new_recognizer L ''torch'' model_name device) (\<lambda>recognizer.
     bindp (widget (St_radio ''Select input method:'' [''Upload Image'', ''Capture from Webcam''])
              (radio_mode ws)) (\<lambda>mode.
     bindp (acquire_image L ws mode) (\<lambda>(img_opt, raw_bytes).
     bindp (infer_and_offer_save L ws conn recognizer nm device img_opt raw_bytes) (\<lambda>_.
     render_history conn)))))))))))"

subsection \<open>Vocabulary of the properties, and example inputs\<close>

text \<open>A schema object is created unless its name is taken.\<close>

definition ensure :: "schema_obj \<Rightarrow> schema_obj list \<Rightarrow> schema_obj list" where
  "ensure obj cat = (if obj_name obj \<in> set (map obj_name cat) then cat else cat @ [obj])"

text \<open>The next \<open>k\<close> driver calls succeed and the table \<^verbatim>\<open>usage\<close> exists behind the
  connection.\<close>

definition healthy :: "nat \<Rightarrow> connection \<Rightarrow> world \<Rightarrow> bool" where
  "healthy k c w = (list_all (\<lambda>f. f = None) (take k (faults w)) \<and>
                     Table ''usage'' \<in> set (catalog (store_of c w)))"

text \<open>The driver accepts the parameters of a statement: on the networked backend no
  string parameter contains the NUL character. The timestamp that \<open>save_result\<close> stores.\<close>

definition accepted :: "connection \<Rightarrow> stmt \<Rightarrow> bool" where
  "accepted c s = (c = Sqlite_conn \<or> list_all nul_free (string_params s))"

definition saved_timestamp :: "string option \<Rightarrow> world \<Rightarrow> string" where
  "saved_timestamp ts w = (case ts of None \<Rightarrow> utcnow_isoformat w | Some t \<Rightarrow> t)"

text \<open>A world with two empty databases, nothing shown and no model built.\<close>

definition fresh_world :: "string option \<Rightarrow> string option list \<Rightarrow> world" where
  "fresh_world url fs =
     \<lparr>database_url = url, pg_store = empty_db, sqlite_store = empty_db, faults = fs,
      utcnow_isoformat = ''2024-05-01T12:00:00'', st_events = [], models_built = []\<rparr>"

text \<open>The worlds after a first, successful \<open>init_database\<close>, with a given fault tape.\<close>

definition pg_world :: "string option list \<Rightarrow> world" where
  "pg_world fs =
     (fresh_world (Some ''postgresql://db/app'') fs)
       \<lparr>pg_store := \<lparr>catalog = [Table ''usage'',
                                 Index ''idx_timestamp'' ''usage'' ''timestamp'' True,
                                 Index ''idx_name'' ''usage'' ''name'' False],
                      usage_rows = [], id_seq = 0\<rparr>\<rparr>"

definition sqlite_world :: "string option list \<Rightarrow> world" where
  "sqlite_world fs =
     (fresh_world None fs)
       \<lparr>sqlite_store := \<lparr>catalog = [Table ''usage''], usage_rows = [], id_seq = 0\<rparr>\<rparr>"

text \<open>The first index of the largest entry of a list.\<close>

definition is_argmax :: "real list \<Rightarrow> nat \<Rightarrow> bool" where
  "is_argmax ps i = (i < length ps \<and> list_all (\<lambda>p. p \<le> ps ! i) ps \<and>
                     list_all (\<lambda>p. p < ps ! i) (take i ps))"

text \<open>The detector object that \<open>detect_first_face\<close> builds.\<close>

definition face_detector :: "string \<Rightarrow> mtcnn" where
  "face_detector device =
     \<lparr>keep_all = False, post_process = False, min_face_size = 40, mtcnn_device = device\<rparr>"

text \<open>A three by three image, a black image of a given height and width, a recogniser
  with three classes, and libraries that return a given detection and recogniser and
  decode every upload to the three by three image.\<close>

definition example_frame :: frame where
  "example_frame = [[[1, 1, 1], [2, 2, 2], [3, 3, 3]],
                    [[4, 4, 4], [5, 5, 5], [6, 6, 6]],
                    [[7, 7, 7], [8, 8, 8], [9, 9, 9]]]"

definition blank_frame :: "nat \<Rightarrow> nat \<Rightarrow> frame" where
  "blank_frame h w = replicate h (replicate w [0, 0, 0])"

definition example_recognizer :: recognizer where
  "example_recognizer =
     \<lparr>idx_to_emotion_class = [(0, ''Anger''), (1, ''Happiness''), (2, ''Sadness'')],
      extract_features = (\<lambda>face. []),
      classify_emotions = (\<lambda>features. ([''Happiness''], [[0.1, 0.7, 0.2]]))\<rparr>"

definition libs_of :: "detection \<Rightarrow> recognizer \<Rightarrow> libs" where
  "libs_of det rec =
     \<lparr>mtcnn_detect = (\<lambda>m f. det), EmotiEffLibRecognizer = (\<lambda>engine model_name device. rec),
      get_model_list = [''enet_b0_8_best_vgaf''], image_open_rgb = (\<lambda>raw. Inr example_frame)\<rparr>"


definition recognizer_of :: "(nat \<times> string) list \<Rightarrow> string \<Rightarrow> real list \<Rightarrow> recognizer" where
  "recognizer_of cm label row =
     \<lparr>idx_to_emotion_class = cm, extract_features = (\<lambda>face. []),
      classify_emotions = (\<lambda>features. ([label], [row]))\<rparr>"

text \<open>A recogniser whose score row ends, after the class probabilities, with two further
  entries (a valence and an arousal), as the multi-task models of the library return it.\<close>

definition mtl_recognizer :: recognizer where
  "mtl_recognizer =
     recognizer_of [(0, ''Anger''), (1, ''Happiness''), (2, ''Sadness'')] ''Happiness''
       [0.1, 0.7, 0.2, - 0.4, 1.3]"

text \<open>The ids of the rows grow in insertion order and stay below the sequence: what
  inserts through \<open>sql_exec\<close> keep true. A history line as it is written to the page.\<close>

definition ids_increasing :: "db \<Rightarrow> bool" where
  "ids_increasing d = (sorted_wrt (<) (map col_id (usage_rows d)) \<and>
                        list_all (\<lambda>r. col_id r \<le> id_seq d) (usage_rows d))"

definition history_line :: "display_row \<Rightarrow> st_event" where
  "history_line = (\<lambda>(nm, ts, emo, conf). St_write (History_line ts nm emo conf))"

text \<open>The fetch of \<open>render_history\<close> (cursor, query, \<^verbatim>\<open>fetchall\<close>) with the limit of the
  query as a parameter; the source issues it with the limit 100. A world whose embedded
  database holds three rows.\<close>

definition fetch_recent :: "connection option \<Rightarrow> nat \<Rightarrow> display_row list prog" where
  "fetch_recent conn N =
     bindp (cursor conn) (\<lambda>cur.
     bindp (execute cur (Select_usage_order_by_id_desc_limit N)) (\<lambda>rs.
     fetchall cur rs))"


text \<open>
  Vocabulary for a run of \<open>main\<close>: the bytes submitted through the selected input mode, the
  compute device, the recogniser the page builds, what the detector finds in an image
  (the result of \<open>detect_first_face\<close>, which does not depend on the world), and the face
  found in the submitted photograph, if any.
\<close>

definition submitted :: "widgets \<Rightarrow> bytes option" where
  "submitted ws = (if radio_mode ws = ''Upload Image'' then file_uploader ws else camera_input ws)"

definition device_of :: "widgets \<Rightarrow> string" where
  "device_of ws = (if checkbox_gpu ws then ''cuda'' else ''cpu'')"

definition recognizer_of_page :: "libs \<Rightarrow> widgets \<Rightarrow> recognizer" where
  "recognizer_of_page L ws = EmotiEffLibRecognizer L ''torch'' (selectbox_model ws) (device_of ws)"

definition detected :: "libs \<Rightarrow> frame \<Rightarrow> string \<Rightarrow> exn + frame option" where
  "detected L frame device = fst (detect_first_face L frame device (fresh_world None []))"

definition face_found :: "libs \<Rightarrow> widgets \<Rightarrow> frame option" where
  "face_found L ws =
     (case submitted ws of
        None \<Rightarrow> None
      | Some raw \<Rightarrow>
         (case image_open_rgb L raw of
            Inl e \<Rightarrow> None
          | Inr img \<Rightarrow>
             (case detected L img (device_of ws) of
                Inr (Some f) \<Rightarrow> Some f
              | _ \<Rightarrow> None)))"

text \<open>What is observed of a world: how often the save button and the no-face warning
  were shown, and the rows of the two tables.\<close>

definition buttons :: "world \<Rightarrow> nat" where
  "buttons w = count_list (st_events w) (St_button ''Save result'')"

definition warnings :: "world \<Rightarrow> nat" where
  "warnings w = count_list (st_events w) (St_warning ''No face detected in the image.'')"

definition all_rows :: "world \<Rightarrow> usage_row list \<times> usage_row list" where
  "all_rows w = (usage_rows (pg_store w), usage_rows (sqlite_store w))"

text \<open>The world after the page's heading, after its input widgets and the construction
  of the recogniser, and after the widgets of the selected input mode.\<close>

definition page_head :: "world \<Rightarrow> world" where
  "page_head w = w\<lparr>st_events := st_events w @
     [St_set_page_config ''Emotion Detection App'', St_title ''Emotion Detection App'',
      St_write (Plain ''Predict a person's emotion from a photograph using a pre-trained EmotiEffLib model.'')]\<rparr>"

definition page_inputs :: "libs \<Rightarrow> widgets \<Rightarrow> world \<Rightarrow> world" where
  "page_inputs L ws w = w\<lparr>models_built := models_built w @
       [Recognizer_built ''torch'' (selectbox_model ws) (device_of ws)],
     st_events := st_events w @
     [St_text_input ''Your name'', St_checkbox ''Use GPU if available'',
      St_selectbox ''Model'' (get_model_list L),
      St_radio ''Select input method:'' [''Upload Image'', ''Capture from Webcam'']]\<rparr>"

definition acquired :: "widgets \<Rightarrow> world \<Rightarrow> world" where
  "acquired ws w = w\<lparr>st_events := st_events w @
     (if radio_mode ws = ''Upload Image''
      then St_file_uploader ''Upload a face image'' #
           (if file_uploader ws = None then [] else [St_image ''Uploaded image''])
      else St_camera_input ''Take a photo'' #
           (if camera_input ws = None then [] else [St_image ''Captured image'']))\<rparr>"

text \<open>The world in which the save button has just been shown: after the widgets, the
  detector's construction and the prediction.\<close>

definition offered :: "libs \<Rightarrow> widgets \<Rightarrow> string \<Rightarrow> real \<Rightarrow> world \<Rightarrow> world" where
  "offered L ws emo conf w =
     (acquired ws (page_inputs L ws w))
       \<lparr>models_built := models_built (acquired ws (page_inputs L ws w)) @
          [MTCNN_built (face_detector (device_of ws))],
        st_events := st_events (acquired ws (page_inputs L ws w)) @
          [St_success (Prediction emo conf), St_button ''Save result'']\<rparr>"

text \<open>A program keeps an observation when no run of it changes the observation.\<close>

definition keeps :: "(world \<Rightarrow> 'b) \<Rightarrow> 'a prog \<Rightarrow> bool" where
  "keeps obs m = (\<forall>w. obs (snd (m w)) = obs w)"

definition page_obs :: "world \<Rightarrow> model_event list \<times> nat \<times> nat" where
  "page_obs w = (models_built w, buttons w, warnings w)"

text \<open>A program raises only exceptions of a given kind.\<close>

definition raises_only :: "(exn \<Rightarrow> bool) \<Rightarrow> 'a prog \<Rightarrow> bool" where
  "raises_only P m = (\<forall>w. case fst (m w) of Inl e \<Rightarrow> P e | Inr x \<Rightarrow> True)"

text \<open>What a run of \<open>main\<close> constructs: nothing when \<open>init_database\<close> raises; otherwise the
  recogniser, followed by a detector when a photograph was submitted and decoded and a
  name was entered.\<close>

definition built_by_main :: "libs \<Rightarrow> widgets \<Rightarrow> world \<Rightarrow> model_event list" where
  "built_by_main L ws w =
     (case fst (init_database (page_head w)) of
        Inl e \<Rightarrow> []
      | Inr conn \<Rightarrow>
         Recognizer_built ''torch'' (selectbox_model ws) (device_of ws) #
         (case submitted ws of
            None \<Rightarrow> []
          | Some raw \<Rightarrow>
             (case image_open_rgb L raw of
                Inl e \<Rightarrow> []
              | Inr img \<Rightarrow>
                 if text_input_name ws = [] then []
                 else [MTCNN_built (face_detector (device_of ws))])))"

text \<open>The widget values of a visit: an upload of three bytes under a given name, with the
  save button pressed or not.\<close>

definition example_widgets :: "string \<Rightarrow> bool \<Rightarrow> widgets" where
  "example_widgets nm click =
     \<lparr>text_input_name = nm, checkbox_gpu = False, selectbox_model = ''enet_b0_8_best_vgaf'',
      radio_mode = ''Upload Image'', file_uploader = Some [255, 216, 255],
      camera_input = None, button_save = click\<rparr>"

section \<open>Properties\<close>

subsection \<open>Evaluation rules\<close>

lemmas prog_defs =
  bindp_def ret_def raise_def try_except_def lift_def st_def widget_def driver_call_def
  adapt_def execute_def fetchall_def psycopg2_connect_def sqlite3_connect_def reads_def
  environ_DATABASE_URL_def

lemmas world_defs =
  fresh_world_def pg_world_def sqlite_world_def empty_db_def USE_POSTGRES_def

text \<open>The same rules without \<open>execute\<close>, which is evaluated through the two lemmas that
  follow: a statement whose parameters the driver accepts makes its round trip, and one
  whose parameters it refuses raises before anything is sent.\<close>

lemmas exec_defs =
  bindp_def ret_def raise_def try_except_def lift_def st_def widget_def driver_call_def
  fetchall_def psycopg2_connect_def sqlite3_connect_def reads_def environ_DATABASE_URL_def

lemma adapt_accepted: "accepted c s \<Longrightarrow> adapt c s = ret ()"
  by (cases c) (auto simp: accepted_def adapt_def)

lemma adapt_refused:
  "\<not> accepted c s \<Longrightarrow>
     adapt c s = raise (ValueError ''A string literal cannot contain NUL (0x00) characters.'')"
  by (cases c) (auto simp: accepted_def adapt_def)

lemma execute_accepted:
  "accepted c s \<Longrightarrow>
   execute c s = bindp (driver_call c) (\<lambda>_ w.
       case sql_exec s (store_of c w) of
         Inl m \<Rightarrow> (Inl (backend_error c m), w)
       | Inr (rs, d) \<Rightarrow> (Inr rs, set_store c d w))"
  by (rule ext) (simp add: execute_def adapt_accepted bindp_def ret_def)

lemma execute_refused:
  "\<not> accepted c s \<Longrightarrow>
   execute c s = raise (ValueError ''A string literal cannot contain NUL (0x00) characters.'')"
  by (rule ext) (simp add: execute_def adapt_refused bindp_def raise_def)

lemma accepted_no_params [simp]:
  "accepted c (Create_table_if_not_exists t)"
  "accepted c (Create_index_if_not_exists n t col dsc)"
  "accepted c (Select_usage_order_by_id_desc_limit k)"
  "accepted Sqlite_conn s"
  by (simp_all add: accepted_def)

lemma pg_world_reached:
  "init_database (fresh_world (Some ''postgresql://db/app'') []) = (Inr (Some Pg_conn), pg_world [])"
  by (simp add: init_database_def prog_defs world_defs)

lemma sqlite_world_reached:
  "init_database (fresh_world None []) = (Inr (Some Sqlite_conn), sqlite_world [])"
  by (simp add: init_database_def prog_defs world_defs)

subsection \<open>init\_database\<close>

text \<open>
  C9. Without \<^verbatim>\<open>DATABASE_URL\<close> in the environment, \<open>init_database\<close> never returns
  \<^verbatim>\<open>None\<close>: it returns the SQLite connection, or a driver error leaves it as an exception
  (no handler stands in that branch).
\<close>

theorem init_database_embedded_never_None:
  assumes "\<not> USE_POSTGRES w"
  shows "fst (init_database w) \<noteq> Inr None \<and>
         (fst (init_database w) = Inr (Some Sqlite_conn) \<or>
          (\<exists>m. fst (init_database w) = Inl (Sqlite3_Error m)))"
  using assms
  by (auto simp: init_database_def prog_defs
           split: list.splits option.splits prod.splits sum.splits)

theorem init_database_embedded_never_None_witness:
  "\<not> USE_POSTGRES (fresh_world None [None, Some ''unable to open database file'']) \<and>
   fst (init_database (fresh_world None [None, Some ''unable to open database file''])) \<noteq> Inr None \<and>
   (fst (init_database (fresh_world None [None, Some ''unable to open database file''])) =
      Inr (Some Sqlite_conn) \<or>
    (\<exists>m. fst (init_database (fresh_world None [None, Some ''unable to open database file''])) =
      Inl (Sqlite3_Error m)))"
proof -
  have h: "\<not> USE_POSTGRES (fresh_world None [None, Some ''unable to open database file''])"
    by (simp add: world_defs)
  show ?thesis
    using h init_database_embedded_never_None [OF h] by simp
qed

lemma ensure_idem: "ensure x (ensure x cat) = ensure x cat"
  by (auto simp: ensure_def)

lemma ensure_distinct:
  "distinct (map obj_name cat) \<Longrightarrow> distinct (map obj_name (ensure x cat))"
  by (auto simp: ensure_def)

text \<open>What \<open>init_database\<close> does when no driver call fails.\<close>

lemma init_database_pg:
  assumes "USE_POSTGRES w" and "faults w = []"
    and "''usage'' \<in> set (map obj_name (catalog (pg_store w))) \<longrightarrow>
         Table ''usage'' \<in> set (catalog (pg_store w))"
  shows "init_database w = (Inr (Some Pg_conn),
             w\<lparr>pg_store := (pg_store w)\<lparr>catalog :=
                 ensure (Index ''idx_name'' ''usage'' ''name'' False)
                   (ensure (Index ''idx_timestamp'' ''usage'' ''timestamp'' True)
                     (ensure (Table ''usage'') (catalog (pg_store w))))\<rparr>\<rparr>)"
  using assms
  by (auto simp: init_database_def ensure_def prog_defs USE_POSTGRES_def)

lemma init_database_sqlite:
  assumes "\<not> USE_POSTGRES w" and "faults w = []"
  shows "init_database w = (Inr (Some Sqlite_conn),
             w\<lparr>sqlite_store := (sqlite_store w)\<lparr>catalog :=
                 ensure (Table ''usage'') (catalog (sqlite_store w))\<rparr>\<rparr>)"
  using assms
  by (auto simp: init_database_def ensure_def prog_defs)

lemma init_database_twice:
  assumes "faults w = []"
    and "''usage'' \<in> set (map obj_name (catalog (pg_store w))) \<longrightarrow>
         Table ''usage'' \<in> set (catalog (pg_store w))"
  shows "init_database (snd (init_database w)) = init_database w"
proof (cases "USE_POSTGRES w")
  case True
  let ?w' = "w\<lparr>pg_store := (pg_store w)\<lparr>catalog :=
                 ensure (Index ''idx_name'' ''usage'' ''name'' False)
                   (ensure (Index ''idx_timestamp'' ''usage'' ''timestamp'' True)
                     (ensure (Table ''usage'') (catalog (pg_store w))))\<rparr>\<rparr>"
  have 1: "init_database w = (Inr (Some Pg_conn), ?w')"
    using True assms by (rule init_database_pg)
  have u: "USE_POSTGRES ?w'" using True by (simp add: USE_POSTGRES_def)
  have f: "faults ?w' = []" using assms(1) by simp
  have c: "''usage'' \<in> set (map obj_name (catalog (pg_store ?w'))) \<longrightarrow>
         Table ''usage'' \<in> set (catalog (pg_store ?w'))"
    using assms(2) by (auto simp: ensure_def)
  have "init_database ?w' = (Inr (Some Pg_conn), ?w')"
    unfolding init_database_pg [OF u f c] using assms(2) by (auto simp: ensure_def)
  with 1 show ?thesis by simp
next
  case False
  let ?w' = "w\<lparr>sqlite_store := (sqlite_store w)\<lparr>catalog :=
                 ensure (Table ''usage'') (catalog (sqlite_store w))\<rparr>\<rparr>"
  have 1: "init_database w = (Inr (Some Sqlite_conn), ?w')"
    using False assms(1) by (rule init_database_sqlite)
  have u: "\<not> USE_POSTGRES ?w'" using False by (simp add: USE_POSTGRES_def)
  have f: "faults ?w' = []" using assms(1) by simp
  have "init_database ?w' = (Inr (Some Sqlite_conn), ?w')"
    unfolding init_database_sqlite [OF u f] by (auto simp: ensure_def)
  with 1 show ?thesis by simp
qed

text \<open>
  C2, as amended. When no driver call fails (and the name \<^verbatim>\<open>usage\<close>, if taken, is taken by
  the table), \<open>init_database\<close> on the networked backend creates the table \<^verbatim>\<open>usage\<close>, the
  index \<^verbatim>\<open>idx_timestamp\<close> (timestamp, descending) and the index \<^verbatim>\<open>idx_name\<close> (name), each
  unless its name exists; on the embedded backend it creates the table only, and no index.
  On either backend a second call in sequence returns the same connection and changes
  nothing, and names that were distinct stay distinct.
\<close>

theorem init_database_schema:
  assumes "faults w = []"
    and "''usage'' \<in> set (map obj_name (catalog (pg_store w))) \<longrightarrow>
         Table ''usage'' \<in> set (catalog (pg_store w))"
  shows "(USE_POSTGRES w \<longrightarrow>
           init_database w = (Inr (Some Pg_conn),
             w\<lparr>pg_store := (pg_store w)\<lparr>catalog :=
                 ensure (Index ''idx_name'' ''usage'' ''name'' False)
                   (ensure (Index ''idx_timestamp'' ''usage'' ''timestamp'' True)
                     (ensure (Table ''usage'') (catalog (pg_store w))))\<rparr>\<rparr>) \<and>
           (distinct (map obj_name (catalog (pg_store w))) \<longrightarrow>
            distinct (map obj_name (catalog (pg_store (snd (init_database w))))))) \<and>
         (\<not> USE_POSTGRES w \<longrightarrow>
           init_database w = (Inr (Some Sqlite_conn),
             w\<lparr>sqlite_store := (sqlite_store w)\<lparr>catalog :=
                 ensure (Table ''usage'') (catalog (sqlite_store w))\<rparr>\<rparr>) \<and>
           (distinct (map obj_name (catalog (sqlite_store w))) \<longrightarrow>
            distinct (map obj_name (catalog (sqlite_store (snd (init_database w))))))) \<and>
         init_database (snd (init_database w)) = init_database w"
proof -
  note pg = init_database_pg [OF _ assms]
  note sq = init_database_sqlite [OF _ assms(1)]
  have pg_distinct: "distinct (map obj_name (catalog (pg_store (snd (init_database w)))))"
    if "USE_POSTGRES w" "distinct (map obj_name (catalog (pg_store w)))"
    using pg [OF that(1)] that(2) by (simp add: ensure_distinct)
  have sq_distinct: "distinct (map obj_name (catalog (sqlite_store (snd (init_database w)))))"
    if "\<not> USE_POSTGRES w" "distinct (map obj_name (catalog (sqlite_store w)))"
    using sq [OF that(1)] that(2) by (simp add: ensure_distinct)
  from pg sq pg_distinct sq_distinct init_database_twice [OF assms] show ?thesis by blast
qed

theorem init_database_schema_witness:
  "faults (fresh_world (Some ''postgresql://db/app'') []) = [] \<and>
   ''usage'' \<notin> set (map obj_name (catalog (pg_store (fresh_world (Some ''postgresql://db/app'') [])))) \<and>
   USE_POSTGRES (fresh_world (Some ''postgresql://db/app'') []) \<and>
   distinct (map obj_name (catalog (pg_store (fresh_world (Some ''postgresql://db/app'') [])))) \<and>
   init_database (fresh_world (Some ''postgresql://db/app'') []) = (Inr (Some Pg_conn), pg_world []) \<and>
   distinct (map obj_name (catalog (pg_store
     (snd (init_database (fresh_world (Some ''postgresql://db/app'') [])))))) \<and>
   init_database (snd (init_database (fresh_world (Some ''postgresql://db/app'') []))) =
     (Inr (Some Pg_conn), pg_world []) \<and>
   faults (fresh_world None []) = [] \<and>
   \<not> USE_POSTGRES (fresh_world None []) \<and>
   init_database (fresh_world None []) = (Inr (Some Sqlite_conn), sqlite_world []) \<and>
   init_database (snd (init_database (fresh_world None []))) =
     (Inr (Some Sqlite_conn), sqlite_world [])"
  using init_database_schema [of "fresh_world (Some ''postgresql://db/app'') []"]
        init_database_schema [of "fresh_world None []"]
  by (simp add: init_database_def prog_defs ensure_def world_defs)

theorem init_database_embedded_no_index_counterexample:
  "\<not> USE_POSTGRES (fresh_world None []) \<and>
   fst (init_database (fresh_world None [])) = Inr (Some Sqlite_conn) \<and>
   catalog (sqlite_store (snd (init_database (fresh_world None [])))) = [Table ''usage''] \<and>
   ''idx_timestamp'' \<notin> set (map obj_name
      (catalog (sqlite_store (snd (init_database (fresh_world None [])))))) \<and>
   ''idx_name'' \<notin> set (map obj_name
      (catalog (sqlite_store (snd (init_database (fresh_world None []))))))"
  by (simp add: init_database_def prog_defs world_defs)

subsection \<open>save\_result\<close>

text \<open>
  C1, as amended. On the networked backend, with a connection, every error of the backend
  (a \<^verbatim>\<open>psycopg2.Error\<close>) raised during the save is caught and shown: when the driver accepts
  the parameters (no NUL character in the name, the timestamp or the emotion),
  \<open>save_result\<close> never raises; it returns normally, and when one of its three driver calls
  fails or the table is missing it shows \<^verbatim>\<open>Database error: ...\<close>. When a string parameter
  contains a NUL character, the driver refuses it with a \<^verbatim>\<open>ValueError\<close>, which the handler
  does not catch: unless \<^verbatim>\<open>conn.cursor()\<close> has failed before (which is reported as above),
  the \<^verbatim>\<open>ValueError\<close> propagates to the caller and nothing is shown. On the embedded
  backend \<open>save_result\<close> shows nothing: it returns normally when its three driver calls
  succeed and the table exists, and otherwise the driver's error propagates to the caller.
\<close>

theorem save_result_networked_reports_embedded_raises:
  "(USE_POSTGRES w \<longrightarrow>
      (if accepted Pg_conn (Insert_into_usage nm (saved_timestamp ts w) img emo conf)
       then fst (save_result (Some Pg_conn) nm img emo conf ts w) = Inr () \<and>
            (if healthy 3 Pg_conn w
             then st_events (snd (save_result (Some Pg_conn) nm img emo conf ts w)) = st_events w
             else (\<exists>m. st_events (snd (save_result (Some Pg_conn) nm img emo conf ts w)) =
                       st_events w @ [St_error (''Database error: '' @ m)]))
       else (case faults w of
               Some m # fs \<Rightarrow>
                 save_result (Some Pg_conn) nm img emo conf ts w =
                   (Inr (), w\<lparr>faults := fs,
                              st_events := st_events w @ [St_error (''Database error: '' @ m)]\<rparr>)
             | _ \<Rightarrow>
                 fst (save_result (Some Pg_conn) nm img emo conf ts w) =
                   Inl (ValueError ''A string literal cannot contain NUL (0x00) characters.'') \<and>
                 st_events (snd (save_result (Some Pg_conn) nm img emo conf ts w)) = st_events w))) \<and>
   (\<not> USE_POSTGRES w \<longrightarrow>
      st_events (snd (save_result (Some Sqlite_conn) nm img emo conf ts w)) = st_events w \<and>
      (if healthy 3 Sqlite_conn w
       then fst (save_result (Some Sqlite_conn) nm img emo conf ts w) = Inr ()
       else (\<exists>m. fst (save_result (Some Sqlite_conn) nm img emo conf ts w) =
                 Inl (Sqlite3_Error m))))"
proof (intro conjI impI)
  assume pg: "USE_POSTGRES w"
  let ?s = "Insert_into_usage nm (saved_timestamp ts w) img emo conf"
  show "if accepted Pg_conn ?s
       then fst (save_result (Some Pg_conn) nm img emo conf ts w) = Inr () \<and>
            (if healthy 3 Pg_conn w
             then st_events (snd (save_result (Some Pg_conn) nm img emo conf ts w)) = st_events w
             else (\<exists>m. st_events (snd (save_result (Some Pg_conn) nm img emo conf ts w)) =
                       st_events w @ [St_error (''Database error: '' @ m)]))
       else (case faults w of
               Some m # fs \<Rightarrow>
                 save_result (Some Pg_conn) nm img emo conf ts w =
                   (Inr (), w\<lparr>faults := fs,
                              st_events := st_events w @ [St_error (''Database error: '' @ m)]\<rparr>)
             | _ \<Rightarrow>
                 fst (save_result (Some Pg_conn) nm img emo conf ts w) =
                   Inl (ValueError ''A string literal cannot contain NUL (0x00) characters.'') \<and>
                 st_events (snd (save_result (Some Pg_conn) nm img emo conf ts w)) = st_events w)"
  proof (cases "accepted Pg_conn ?s")
    case True
    then have a: "accepted Pg_conn (Insert_into_usage nm t img emo conf)"
      if "t = saved_timestamp ts w" for t using that by simp
    show ?thesis
      using True pg
      by (cases ts)
         (auto simp: save_result_def healthy_def exec_defs execute_accepted a saved_timestamp_def
            split: list.splits option.splits prod.splits sum.splits)
  next
    case False
    then have a: "\<not> accepted Pg_conn (Insert_into_usage nm t img emo conf)"
      if "t = saved_timestamp ts w" for t using that by simp
    show ?thesis
      using False pg
      by (cases ts)
         (auto simp: save_result_def exec_defs execute_refused a saved_timestamp_def
            split: list.splits option.splits prod.splits sum.splits)
  qed
next
  assume "\<not> USE_POSTGRES w"
  then show "st_events (snd (save_result (Some Sqlite_conn) nm img emo conf ts w)) = st_events w"
    by (auto simp: save_result_def exec_defs execute_accepted accepted_def
           split: list.splits option.splits prod.splits sum.splits)
next
  assume "\<not> USE_POSTGRES w"
  then show "if healthy 3 Sqlite_conn w
       then fst (save_result (Some Sqlite_conn) nm img emo conf ts w) = Inr ()
       else (\<exists>m. fst (save_result (Some Sqlite_conn) nm img emo conf ts w) =
                 Inl (Sqlite3_Error m))"
    by (auto simp: save_result_def healthy_def exec_defs execute_accepted accepted_def
           split: list.splits option.splits prod.splits sum.splits)
qed


theorem save_result_networked_reports_embedded_raises_witness:
  "USE_POSTGRES (pg_world [None, Some ''server closed the connection'']) \<and>
   accepted Pg_conn (Insert_into_usage ''Alice''
     (saved_timestamp None (pg_world [None, Some ''server closed the connection'']))
     [1, 2, 3] ''Happiness'' 0.9) \<and>
   \<not> healthy 3 Pg_conn (pg_world [None, Some ''server closed the connection'']) \<and>
   fst (save_result (Some Pg_conn) ''Alice'' [1, 2, 3] ''Happiness'' 0.9 None
          (pg_world [None, Some ''server closed the connection''])) = Inr () \<and>
   st_events (snd (save_result (Some Pg_conn) ''Alice'' [1, 2, 3] ''Happiness'' 0.9 None
          (pg_world [None, Some ''server closed the connection'']))) =
     [St_error ''Database error: server closed the connection''] \<and>
   \<not> accepted Pg_conn (Insert_into_usage [CHR ''A'', CHR 0x00]
     (saved_timestamp None (pg_world [])) [1, 2, 3] ''Happiness'' 0.9) \<and>
   fst (save_result (Some Pg_conn) [CHR ''A'', CHR 0x00] [1, 2, 3] ''Happiness'' 0.9 None
          (pg_world [])) =
     Inl (ValueError ''A string literal cannot contain NUL (0x00) characters.'') \<and>
   \<not> USE_POSTGRES (sqlite_world []) \<and>
   healthy 3 Sqlite_conn (sqlite_world []) \<and>
   fst (save_result (Some Sqlite_conn) ''Alice'' [1, 2, 3] ''Happiness'' 0.9 None
          (sqlite_world [])) = Inr () \<and>
   st_events (snd (save_result (Some Sqlite_conn) ''Alice'' [1, 2, 3] ''Happiness'' 0.9 None
          (sqlite_world []))) = []"
  using save_result_networked_reports_embedded_raises
          [of "pg_world [None, Some ''server closed the connection'']"
              "''Alice''" None "[1, 2, 3]" "''Happiness''" "0.9"]
        save_result_networked_reports_embedded_raises
          [of "pg_world []" "[CHR ''A'', CHR 0x00]" None "[1, 2, 3]" "''Happiness''" "0.9"]
        save_result_networked_reports_embedded_raises
          [of "sqlite_world []" "''Alice''" None "[1, 2, 3]" "''Happiness''" "0.9"]
  by (simp add: save_result_def healthy_def prog_defs world_defs accepted_def nul_free_def
        saved_timestamp_def)

text \<open>On the embedded backend a failing driver call during the save is raised, and
  nothing is shown. On the networked backend, with every driver call succeeding, a name
  with a NUL character makes the save raise, and nothing is shown.\<close>

theorem save_result_embedded_error_counterexample:
  "\<not> USE_POSTGRES (sqlite_world [None, Some ''database is locked'']) \<and>
   fst (save_result (Some Sqlite_conn) ''Alice'' [1, 2, 3] ''Happiness'' 0.9 None
          (sqlite_world [None, Some ''database is locked''])) =
     Inl (Sqlite3_Error ''database is locked'') \<and>
   st_events (snd (save_result (Some Sqlite_conn) ''Alice'' [1, 2, 3] ''Happiness'' 0.9 None
          (sqlite_world [None, Some ''database is locked'']))) = [] \<and>
   USE_POSTGRES (pg_world []) \<and>
   fst (save_result (Some Pg_conn) [CHR ''A'', CHR 0x00] [1, 2, 3] ''Happiness'' 0.9 None
          (pg_world [])) =
     Inl (ValueError ''A string literal cannot contain NUL (0x00) characters.'') \<and>
   st_events (snd (save_result (Some Pg_conn) [CHR ''A'', CHR 0x00] [1, 2, 3] ''Happiness'' 0.9 None
          (pg_world []))) = []"
  by (simp add: save_result_def prog_defs world_defs nul_free_def)

text \<open>
  The \<^verbatim>\<open>None\<close> that \<open>init_database\<close> returns when the networked backend cannot be reached
  fails the test \<^verbatim>\<open>conn is not None\<close> and so takes the branch without a handler, where
  \<^verbatim>\<open>conn.cursor()\<close> raises AttributeError.
\<close>

lemma init_database_unreachable:
  "init_database (fresh_world (Some ''postgresql://db/app'') [Some ''could not connect to server'']) =
     (Inr None, (fresh_world (Some ''postgresql://db/app'') [])
        \<lparr>st_events := [St_error ''PostgreSQL connection error: could not connect to server'']\<rparr>)"
  by (simp add: init_database_def prog_defs world_defs)

lemma save_result_null_connection:
  "fst (save_result None ''Alice'' [1, 2, 3] ''Happiness'' 0.9 None
          (fresh_world (Some ''postgresql://db/app'') [])) =
     Inl (AttributeError ''NoneType object has no attribute cursor'')"
  by (simp add: save_result_def prog_defs world_defs)

subsection \<open>detect\_first\_face\<close>

lemma is_argmax_iff:
  "is_argmax ps i \<longleftrightarrow>
     i < length ps \<and> (\<forall>j<length ps. ps ! j \<le> ps ! i) \<and> (\<forall>j<i. ps ! j < ps ! i)"
  by (auto simp: is_argmax_def list_all_length)

text \<open>The loop of \<open>np_argmax\<close>: after the prefix \<open>pre\<close>, \<open>best_i\<close> is the first index of
  its largest entry \<open>best\<close>.\<close>

lemma argmax_from_spec:
  assumes "bi < length pre" "best = pre ! bi" "\<forall>j<length pre. pre ! j \<le> best"
    "\<forall>j<bi. pre ! j < best" "i = length pre"
  shows "is_argmax (pre @ xs) (argmax_from xs i best bi)"
  using assms
proof (induction xs arbitrary: pre i best bi)
  case Nil
  then show ?case by (simp add: is_argmax_iff)
next
  case (Cons x xs)
  show ?case
  proof (cases "best < x")
    case True
    have "is_argmax ((pre @ [x]) @ xs) (argmax_from xs (Suc i) x i)"
    proof (rule Cons.IH)
      show "i < length (pre @ [x])" using Cons.prems by simp
      show "x = (pre @ [x]) ! i" using Cons.prems by simp
      show "\<forall>j<length (pre @ [x]). (pre @ [x]) ! j \<le> x"
        using Cons.prems True by (auto simp: nth_append less_Suc_eq intro: less_imp_le order_trans)
      show "\<forall>j<i. (pre @ [x]) ! j < x"
        using Cons.prems True by (auto simp: nth_append intro: le_less_trans)
      show "Suc i = length (pre @ [x])" using Cons.prems by simp
    qed
    with True show ?thesis by simp
  next
    case False
    have "is_argmax ((pre @ [x]) @ xs) (argmax_from xs (Suc i) best bi)"
    proof (rule Cons.IH)
      show "bi < length (pre @ [x])" using Cons.prems by simp
      show "best = (pre @ [x]) ! bi" using Cons.prems by (simp add: nth_append)
      show "\<forall>j<length (pre @ [x]). (pre @ [x]) ! j \<le> best"
        using Cons.prems False by (auto simp: nth_append less_Suc_eq)
      show "\<forall>j<bi. (pre @ [x]) ! j < best"
        using Cons.prems by (auto simp: nth_append)
      show "Suc i = length (pre @ [x])" using Cons.prems by simp
    qed
    with False show ?thesis by simp
  qed
qed

lemma is_argmax_unique: "is_argmax ps i \<Longrightarrow> is_argmax ps j \<Longrightarrow> i = j"
  unfolding is_argmax_iff
  by (metis linorder_neqE_nat not_le)

lemma np_argmax_is_argmax: "ps \<noteq> [] \<Longrightarrow> \<exists>i. np_argmax ps = Inr i \<and> is_argmax ps i"
proof (cases ps)
  case Nil then show "ps \<noteq> [] \<Longrightarrow> ?thesis" by simp
next
  case (Cons p rest)
  have "is_argmax ([p] @ rest) (argmax_from rest 1 p 0)"
    by (rule argmax_from_spec) auto
  with Cons show ?thesis by (simp add: np_argmax_def)
qed

lemma np_argmax_eq: "is_argmax ps i \<Longrightarrow> np_argmax ps = Inr i"
proof -
  assume a: "is_argmax ps i"
  then have "ps \<noteq> []" by (auto simp: is_argmax_def)
  from np_argmax_is_argmax [OF this] obtain j where "np_argmax ps = Inr j" "is_argmax ps j"
    by blast
  with a show ?thesis using is_argmax_unique by blast
qed

text \<open>Truncation towards zero is monotone, so a box of non-positive width (height) as
  floats has non-positive width (height) as integers.\<close>

lemma astype_int_mono: "a \<le> b \<Longrightarrow> astype_int a \<le> astype_int b"
proof -
  assume ab: "a \<le> b"
  consider "0 \<le> a" | "b < 0" | "a < 0" "0 \<le> b" using ab by linarith
  then show ?thesis
  proof cases
    case 1
    then show ?thesis using ab by (simp add: astype_int_def floor_mono)
  next
    case 2
    then show ?thesis using ab by (simp add: astype_int_def ceiling_mono)
  next
    case 3
    have "\<lceil>a\<rceil> \<le> 0" using 3(1) by (simp add: ceiling_le_zero)
    moreover have "0 \<le> \<lfloor>b\<rfloor>" using 3(2) by simp
    ultimately have "\<lceil>a\<rceil> \<le> \<lfloor>b\<rfloor>" by linarith
    then show ?thesis using 3 by (simp add: astype_int_def)
  qed
qed

lemma detect_first_face_selected:
  assumes "mtcnn_detect L (face_detector device) frame = (Some bbs, Some ps)"
    and "length bbs = length ps"
    and "is_argmax ps idx"
    and "bbs ! idx = (bx1, by1, bx2, by2)"
  shows "fst (detect_first_face L frame device w) =
           (if astype_int bx2 - astype_int bx1 \<le> 0 \<or> astype_int by2 - astype_int by1 \<le> 0
            then Inr None
            else Inr (Some (crop frame (astype_int by1) (astype_int by2)
                                       (astype_int bx1) (astype_int bx2))))"
proof -
  have i: "idx < length bbs" using assms by (simp add: is_argmax_def)
  show ?thesis
    using assms(1,4) i np_argmax_eq [OF assms(3)]
    by (simp add: detect_first_face_def MTCNN_def face_detector_def [symmetric] Let_def
        bindp_def ret_def lift_def np_index_def)
qed

text \<open>
  C10. When the box of highest probability (the first one, among equals) has non-positive
  width or height, as floats or after the truncation to integers, \<open>detect_first_face\<close>
  returns \<^verbatim>\<open>None\<close>, whatever the other boxes are: no other candidate is tried.
\<close>

theorem detect_first_face_no_fallback:
  assumes "mtcnn_detect L (face_detector device) frame = (Some bbs, Some ps)"
    and "length bbs = length ps"
    and "is_argmax ps idx"
    and "bbs ! idx = (bx1, by1, bx2, by2)"
    and "bx2 - bx1 \<le> 0 \<or> by2 - by1 \<le> 0 \<or>
         astype_int bx2 - astype_int bx1 \<le> 0 \<or> astype_int by2 - astype_int by1 \<le> 0"
  shows "fst (detect_first_face L frame device w) = Inr None"
proof -
  have "astype_int bx2 - astype_int bx1 \<le> 0 \<or> astype_int by2 - astype_int by1 \<le> 0"
    using assms(5) astype_int_mono [of bx2 bx1] astype_int_mono [of by2 by1] by auto
  then show ?thesis
    using detect_first_face_selected [OF assms(1-4), of w] by simp
qed

text \<open>The second box wins with probability 0.95 and has width zero; the first box is
  forty by forty.\<close>

theorem detect_first_face_no_fallback_witness:
  "mtcnn_detect (libs_of (Some [(10, 10, 50, 50), (20, 20, 20, 60)], Some [0.7, 0.95])
                   example_recognizer) (face_detector ''cpu'') example_frame =
     (Some [(10, 10, 50, 50), (20, 20, 20, 60)], Some [0.7, 0.95]) \<and>
   length [(10, 10, 50, 50), (20, 20, 20, 60) :: box] = length [0.7, 0.95 :: real] \<and>
   is_argmax [0.7, 0.95] 1 \<and>
   [(10, 10, 50, 50), (20, 20, 20, 60) :: box] ! 1 = (20, 20, 20, 60) \<and>
   (20 :: real) - 20 \<le> 0 \<and>
   0 < astype_int 50 - astype_int 10 \<and>
   fst (detect_first_face (libs_of (Some [(10, 10, 50, 50), (20, 20, 20, 60)], Some [0.7, 0.95])
                             example_recognizer) example_frame ''cpu'' (fresh_world None [])) =
     Inr None"
proof -
  have h1: "mtcnn_detect (libs_of (Some [(10, 10, 50, 50), (20, 20, 20, 60)], Some [0.7, 0.95])
                   example_recognizer) (face_detector ''cpu'') example_frame =
     (Some [(10, 10, 50, 50), (20, 20, 20, 60)], Some [0.7, 0.95])"
    by (simp add: libs_of_def)
  have h2: "length [(10, 10, 50, 50), (20, 20, 20, 60) :: box] = length [0.7, 0.95 :: real]"
    by simp
  have h3: "is_argmax [0.7, 0.95] 1"
    by (simp add: is_argmax_def)
  have h4: "[(10, 10, 50, 50), (20, 20, 20, 60) :: box] ! 1 = (20, 20, 20, 60)"
    by simp
  have h5: "(20 :: real) - 20 \<le> 0 \<or> (60 :: real) - 20 \<le> 0 \<or>
            astype_int 20 - astype_int 20 \<le> 0 \<or> astype_int 60 - astype_int 20 \<le> 0"
    by simp
  have h6: "0 < astype_int 50 - astype_int 10"
    by (simp add: astype_int_def)
  show ?thesis
    using h1 h2 h3 h4 h6
      detect_first_face_no_fallback [OF h1 h2 h3 h4 h5, of "fresh_world None []"]
    by simp
qed

lemma detect_first_face_no_candidates:
  assumes "mtcnn_detect L (face_detector device) frame = (bounding_boxes, probs)"
    and "bounding_boxes = None \<or> probs = None"
  shows "fst (detect_first_face L frame device w) = Inr None"
  using assms
  by (auto simp: detect_first_face_def MTCNN_def face_detector_def [symmetric] Let_def
        bindp_def ret_def split: option.splits)

text \<open>Inside the bounds of a list, with a non-negative start, a slice is the segment
  between its bounds.\<close>

lemma py_slice_inside:
  assumes "0 \<le> a" "a \<le> b" "b \<le> int (length xs)"
  shows "py_slice a b xs = take (nat b - nat a) (drop (nat a) xs)"
proof -
  have "nat a \<le> length xs" "nat b \<le> length xs" using assms by linarith+
  then show ?thesis
    using assms by (simp add: py_slice_def slice_bound_def Let_def min_absorb1)
qed

lemma take_drop_nth:
  assumes "0 \<le> a" "a \<le> b" "b \<le> int (length xs)"
  shows "length (take (nat b - nat a) (drop (nat a) xs)) = nat (b - a) \<and>
         (\<forall>i<nat (b - a). take (nat b - nat a) (drop (nat a) xs) ! i = xs ! (nat a + i) \<and>
                           nat a + i < length xs)"
proof -
  have nd: "nat b - nat a = nat (b - a)" using assms by (simp add: nat_diff_distrib)
  have le: "nat a + nat (b - a) \<le> length xs" using assms by linarith
  show ?thesis
    using le by (auto simp: nd min_def)
qed

text \<open>
  C4, at a box that reaches over the left edge of the image. On an image of 100 by 100
  pixels the detector reports the one box \<^verbatim>\<open>[-5, 10, 60, 80]\<close>: it is 65 wide and 70 high, and
  inside the image it covers columns 0 to 59 of rows 10 to 79. The width test passes, and
  the slice \<^verbatim>\<open>frame[10:80, -5:60]\<close> starts at column 95 (the bound \<^verbatim>\<open>-5\<close> counts from the right
  end) and stops at column 60: the result is not \<^verbatim>\<open>None\<close>, and each of its 70 rows is empty.
\<close>

theorem detect_first_face_negative_box:
  "fst (detect_first_face (libs_of (Some [(-5, 10, 60, 80)], Some [0.99]) example_recognizer)
          (blank_frame 100 100) ''cpu'' (fresh_world None [])) = Inr (Some (replicate 70 []))"
  by (simp add: detect_first_face_def MTCNN_def libs_of_def blank_frame_def Let_def
        bindp_def ret_def lift_def np_index_def np_argmax_def astype_int_def ceiling_def
        crop_def py_slice_def slice_bound_def)

text \<open>
  X1. What does hold of \<open>detect_first_face\<close>. With candidates, one probability per box, it
  reads the first box of highest probability, returns \<^verbatim>\<open>None\<close> exactly when the truncated
  box has non-positive width or height, and otherwise returns the slice
  \<^verbatim>\<open>frame[y1:y2, x1:x2]\<close>.
\<close>

theorem detect_first_face_result:
  assumes "mtcnn_detect L (face_detector device) frame = (Some bbs, Some ps)"
    and "length bbs = length ps"
    and "is_argmax ps idx"
    and "bbs ! idx = (bx1, by1, bx2, by2)"
  shows "(fst (detect_first_face L frame device w) = Inr None \<longleftrightarrow>
            astype_int bx2 - astype_int bx1 \<le> 0 \<or> astype_int by2 - astype_int by1 \<le> 0) \<and>
         (0 < astype_int bx2 - astype_int bx1 \<and> 0 < astype_int by2 - astype_int by1 \<longrightarrow>
            fst (detect_first_face L frame device w) =
              Inr (Some (crop frame (astype_int by1) (astype_int by2)
                                    (astype_int bx1) (astype_int bx2))))"
  using detect_first_face_selected [OF assms, of w] by auto

theorem detect_first_face_result_witness:
  "mtcnn_detect (libs_of (Some [(2, 2, 3, 3), (0.5, 0.2, 2.7, 2.1)], Some [0.6, 0.9])
                   example_recognizer) (face_detector ''cpu'') example_frame =
     (Some [(2, 2, 3, 3), (0.5, 0.2, 2.7, 2.1)], Some [0.6, 0.9]) \<and>
   is_argmax [0.6, 0.9] 1 \<and>
   0 < astype_int 2.7 - astype_int 0.5 \<and> 0 < astype_int 2.1 - astype_int 0.2 \<and>
   fst (detect_first_face (libs_of (Some [(2, 2, 3, 3), (0.5, 0.2, 2.7, 2.1)], Some [0.6, 0.9])
                             example_recognizer) example_frame ''cpu'' (fresh_world None [])) =
     Inr (Some [[[1, 1, 1], [2, 2, 2]], [[4, 4, 4], [5, 5, 5]]])"
proof -
  have h1: "mtcnn_detect (libs_of (Some [(2, 2, 3, 3), (0.5, 0.2, 2.7, 2.1)], Some [0.6, 0.9])
                   example_recognizer) (face_detector ''cpu'') example_frame =
     (Some [(2, 2, 3, 3), (0.5, 0.2, 2.7, 2.1)], Some [0.6, 0.9])"
    by (simp add: libs_of_def)
  have h2: "length [(2, 2, 3, 3), (0.5, 0.2, 2.7, 2.1) :: box] = length [0.6, 0.9 :: real]"
    by simp
  have h3: "is_argmax [0.6, 0.9] 1"
    by (simp add: is_argmax_def)
  have h4: "[(2, 2, 3, 3), (0.5, 0.2, 2.7, 2.1) :: box] ! 1 = (0.5, 0.2, 2.7, 2.1)"
    by simp
  have t: "astype_int 0.5 = 0" "astype_int 0.2 = 0" "astype_int 2.7 = 2" "astype_int 2.1 = 2"
    by (simp_all add: astype_int_def)
  have c: "crop example_frame 0 2 0 2 = [[[1, 1, 1], [2, 2, 2]], [[4, 4, 4], [5, 5, 5]]]"
    by (simp add: crop_def py_slice_def slice_bound_def example_frame_def)
  show ?thesis
    using h1 h3 t c detect_first_face_result [OF h1 h2 h3 h4, of "fresh_world None []"]
    by simp
qed

text \<open>
  X2. When the truncated box lies inside the image, with non-negative coordinates, that
  slice is the box's rectangle of pixels: \<open>y2 - y1\<close> rows of \<open>x2 - x1\<close> pixels, the pixel
  at \<open>(i, j)\<close> being the image's pixel at \<open>(y1 + i, x1 + j)\<close>.
\<close>

theorem crop_inside:
  assumes "0 \<le> y1" "y1 \<le> y2" "y2 \<le> int (length frame)"
    and "0 \<le> x1" "x1 \<le> x2" "\<forall>row\<in>set frame. x2 \<le> int (length row)"
  shows "length (crop frame y1 y2 x1 x2) = nat (y2 - y1) \<and>
         (\<forall>i<nat (y2 - y1).
            length (crop frame y1 y2 x1 x2 ! i) = nat (x2 - x1) \<and>
            (\<forall>j<nat (x2 - x1).
               crop frame y1 y2 x1 x2 ! i ! j = frame ! (nat y1 + i) ! (nat x1 + j)))"
proof -
  let ?rows = "take (nat y2 - nat y1) (drop (nat y1) frame)"
  have rows: "py_slice y1 y2 frame = ?rows"
    using assms(1-3) by (rule py_slice_inside)
  note R = take_drop_nth [OF assms(1-3)]
  have cell: "length (py_slice x1 x2 r) = nat (x2 - x1) \<and>
              (\<forall>j<nat (x2 - x1). py_slice x1 x2 r ! j = r ! (nat x1 + j))" if "r \<in> set frame" for r
  proof -
    have b: "x2 \<le> int (length r)" using that assms(6) by blast
    have "py_slice x1 x2 r = take (nat x2 - nat x1) (drop (nat x1) r)"
      using assms(4,5) b by (rule py_slice_inside)
    then show ?thesis using take_drop_nth [OF assms(4,5) b] by simp
  qed
  have "length (crop frame y1 y2 x1 x2) = nat (y2 - y1)"
    using R by (simp add: crop_def rows)
  moreover have "length (crop frame y1 y2 x1 x2 ! i) = nat (x2 - x1) \<and>
            (\<forall>j<nat (x2 - x1).
               crop frame y1 y2 x1 x2 ! i ! j = frame ! (nat y1 + i) ! (nat x1 + j))"
    if "i < nat (y2 - y1)" for i
  proof -
    have a: "?rows ! i = frame ! (nat y1 + i)" "nat y1 + i < length frame" "i < length ?rows"
      using R that by auto
    then have "frame ! (nat y1 + i) \<in> set frame" by simp
    from cell [OF this] show ?thesis
      using a by (simp add: crop_def rows)
  qed
  ultimately show ?thesis by blast
qed

theorem crop_inside_witness:
  "(0 :: int) \<le> 1 \<and> (1 :: int) \<le> 3 \<and> 3 \<le> int (length example_frame) \<and>
   length (crop example_frame 1 3 0 2) = 2 \<and>
   length (crop example_frame 1 3 0 2 ! 1) = 2 \<and>
   crop example_frame 1 3 0 2 ! 1 ! 1 = example_frame ! 2 ! 1"
proof -
  have h: "(0 :: int) \<le> 1" "(1 :: int) \<le> 3" "3 \<le> int (length example_frame)"
    "(0 :: int) \<le> 0" "(0 :: int) \<le> 2" "\<forall>row\<in>set example_frame. 2 \<le> int (length row)"
    by (simp_all add: example_frame_def)
  note c = crop_inside [OF h]
  have len: "length (crop example_frame 1 3 0 2) = 2"
    using c by simp
  have row: "length (crop example_frame 1 3 0 2 ! 1) = nat (2 - 0) \<and>
            (\<forall>j<nat (2 - 0).
               crop example_frame 1 3 0 2 ! 1 ! j = example_frame ! (nat 1 + 1) ! (nat 0 + j))"
    using c [THEN conjunct2, rule_format, of 1] by simp
  have cell: "crop example_frame 1 3 0 2 ! 1 ! 1 = example_frame ! (nat 1 + 1) ! (nat 0 + 1)"
    using row [THEN conjunct2, rule_format, of 1] by simp
  show ?thesis
    using h(1-3) len row cell by (simp add: numeral_2_eq_2)
qed

text \<open>Every call of \<open>detect_first_face\<close> builds a detector.\<close>

lemma detect_first_face_models:
  "models_built (snd (detect_first_face L frame device w)) =
     models_built w @ [MTCNN_built (face_detector device)]"
  by (simp add: detect_first_face_def MTCNN_def face_detector_def [symmetric] Let_def
        bindp_def ret_def lift_def split: option.splits prod.splits sum.splits)

subsection \<open>classify\_emotion\<close>

lemma invert_dict_fold:
  "(\<exists>k. fold (\<lambda>(k, v) m. m(v \<mapsto> k)) xs m0 v = Some k \<and> (k, v) \<in> set xs) \<or>
   (v \<notin> snd ` set xs \<and> fold (\<lambda>(k, v) m. m(v \<mapsto> k)) xs m0 v = m0 v)"
proof (induction xs arbitrary: m0)
  case Nil
  then show ?case by simp
next
  case (Cons x xs)
  obtain k1 v1 where x: "x = (k1, v1)" by (cases x)
  from Cons.IH [of "m0(v1 \<mapsto> k1)"] show ?case
    by (auto simp: x)
qed

lemma invert_dict_Some:
  assumes "v \<in> snd ` set cm"
  shows "\<exists>k. invert_dict cm v = Some k \<and> (k, v) \<in> set cm"
  using invert_dict_fold [of cm Map.empty v] assms by (auto simp: invert_dict_def)

lemma invert_dict_None: "v \<notin> snd ` set cm \<Longrightarrow> invert_dict cm v = None"
  using invert_dict_fold [of cm Map.empty v] by (force simp: invert_dict_def)

lemma classify_emotion_eval:
  assumes "classify_emotions rec (extract_features rec face) = (label # ls, row # rs)"
    and "invert_dict (idx_to_emotion_class rec) label = Some idx"
    and "idx < length row"
  shows "classify_emotion rec face = Inr (label, row ! idx)"
  using assms by (simp add: classify_emotion_def Let_def np_index_def)





text \<open>Two class indices with one label: the score read back is the second one's.\<close>

lemma inverse_lookup_differs:
  "is_argmax [0.9, 0.1] 0 \<and>
   map_of [(0, ''Happiness''), (1, ''Happiness'')] (0 :: nat) = Some ''Happiness'' \<and>
   classify_emotion
     (recognizer_of [(0, ''Happiness''), (1, ''Happiness'')] ''Happiness'' [0.9, 0.1]) [] =
     Inr (''Happiness'', 0.1)"
  by (simp add: is_argmax_def classify_emotion_def recognizer_of_def invert_dict_def
        np_index_def Let_def)

lemma invert_dict_SomeD: "invert_dict cm v = Some k \<Longrightarrow> (k, v) \<in> set cm"
  using invert_dict_fold [of cm Map.empty v] by (auto simp: invert_dict_def)

lemma classify_emotion_returns:
  assumes "classify_emotions rec (extract_features rec face) = (labels, scores)"
    and "classify_emotion rec face = Inr (label, conf)"
  shows "labels \<noteq> [] \<and> label = hd labels \<and> scores \<noteq> [] \<and>
         (\<exists>k. invert_dict (idx_to_emotion_class rec) label = Some k \<and>
              k < length (hd scores) \<and> conf = hd scores ! k)"
  using assms
  by (auto simp: classify_emotion_def Let_def np_index_def
      split: list.splits option.splits if_splits)

text \<open>
  C6. Whenever \<open>classify_emotion\<close> returns a label and a confidence, the label is the first
  label the recogniser answered and belongs to the recogniser's class map (a label outside
  the map raises \<^verbatim>\<open>KeyError\<close>), and the confidence is the entry of the first score row at the
  index the inverted class map gives for that label; so the confidence lies in \<open>[0, 1]\<close>
  when the scores at the class indices are probabilities (as \<^verbatim>\<open>logits=False\<close> asks for),
  whatever further entries the row has. And \<open>classify_emotion\<close> does return when the
  recogniser answers with the label of one of its classes and a score row that has an
  entry for every class index.
\<close>

theorem classify_emotion_label_and_confidence:
  assumes "classify_emotions rec (extract_features rec face) = (labels, scores)"
  shows "(classify_emotion rec face = Inr (label, conf) \<longrightarrow>
            labels \<noteq> [] \<and> label = hd labels \<and> scores \<noteq> [] \<and>
            label \<in> snd ` set (idx_to_emotion_class rec) \<and>
            (\<exists>k. (k, label) \<in> set (idx_to_emotion_class rec) \<and>
                 invert_dict (idx_to_emotion_class rec) label = Some k \<and>
                 k < length (hd scores) \<and> conf = hd scores ! k) \<and>
            ((\<forall>k\<in>fst ` set (idx_to_emotion_class rec).
                 k < length (hd scores) \<longrightarrow> 0 \<le> hd scores ! k \<and> hd scores ! k \<le> 1) \<longrightarrow>
               0 \<le> conf \<and> conf \<le> 1)) \<and>
         (labels \<noteq> [] \<and> scores \<noteq> [] \<and>
          map_of (idx_to_emotion_class rec) p = Some (hd labels) \<and>
          (\<forall>k\<in>fst ` set (idx_to_emotion_class rec). k < length (hd scores)) \<longrightarrow>
            (\<exists>k. (k, hd labels) \<in> set (idx_to_emotion_class rec) \<and>
                 classify_emotion rec face = Inr (hd labels, hd scores ! k)))"
proof (intro conjI impI)
  assume r: "classify_emotion rec face = Inr (label, conf)"
  from classify_emotion_returns [OF assms r] obtain k where
    l: "labels \<noteq> []" "label = hd labels" "scores \<noteq> []"
    and k: "invert_dict (idx_to_emotion_class rec) label = Some k" "k < length (hd scores)"
      "conf = hd scores ! k"
    by blast
  have m: "(k, label) \<in> set (idx_to_emotion_class rec)"
    using k(1) by (rule invert_dict_SomeD)
  show "labels \<noteq> []" "label = hd labels" "scores \<noteq> []" by fact+
  show "label \<in> snd ` set (idx_to_emotion_class rec)" using m by force
  show "\<exists>k. (k, label) \<in> set (idx_to_emotion_class rec) \<and>
            invert_dict (idx_to_emotion_class rec) label = Some k \<and>
            k < length (hd scores) \<and> conf = hd scores ! k"
    using m k by blast
  assume p: "\<forall>k\<in>fst ` set (idx_to_emotion_class rec).
               k < length (hd scores) \<longrightarrow> 0 \<le> hd scores ! k \<and> hd scores ! k \<le> 1"
  have "k \<in> fst ` set (idx_to_emotion_class rec)" using m by force
  then show "0 \<le> conf" "conf \<le> 1" using p k(2,3) by auto
next
  assume a: "labels \<noteq> [] \<and> scores \<noteq> [] \<and>
          map_of (idx_to_emotion_class rec) p = Some (hd labels) \<and>
          (\<forall>k\<in>fst ` set (idx_to_emotion_class rec). k < length (hd scores))"
  then obtain label ls row rs where ls: "labels = label # ls" "scores = row # rs"
    by (cases labels; cases scores) auto
  have "(p, label) \<in> set (idx_to_emotion_class rec)"
    using a ls by (auto dest: map_of_SomeD)
  then have "label \<in> snd ` set (idx_to_emotion_class rec)" by force
  from invert_dict_Some [OF this] obtain j where
    j: "invert_dict (idx_to_emotion_class rec) label = Some j"
       "(j, label) \<in> set (idx_to_emotion_class rec)" by blast
  have jl: "j < length row" using j(2) a ls by force
  have "classify_emotion rec face = Inr (label, row ! j)"
    using assms [unfolded ls] j(1) jl by (rule classify_emotion_eval)
  then show "\<exists>k. (k, hd labels) \<in> set (idx_to_emotion_class rec) \<and>
                 classify_emotion rec face = Inr (hd labels, hd scores ! k)"
    using j(2) ls by auto
qed

theorem classify_emotion_label_and_confidence_witness:
  "classify_emotions example_recognizer (extract_features example_recognizer []) =
     ([''Happiness''], [[0.1, 0.7, 0.2]]) \<and>
   map_of (idx_to_emotion_class example_recognizer) 1 = Some ''Happiness'' \<and>
   classify_emotion example_recognizer [] = Inr (''Happiness'', 0.7) \<and>
   ''Happiness'' \<in> snd ` set (idx_to_emotion_class example_recognizer) \<and>
   classify_emotions mtl_recognizer (extract_features mtl_recognizer []) =
     ([''Happiness''], [[0.1, 0.7, 0.2, - 0.4, 1.3]]) \<and>
   list_all (\<lambda>k. 0 \<le> [0.1, 0.7, 0.2, - 0.4, 1.3 :: real] ! k \<and>
                 [0.1, 0.7, 0.2, - 0.4, 1.3 :: real] ! k \<le> 1)
     (map fst (idx_to_emotion_class mtl_recognizer)) \<and>
   classify_emotion mtl_recognizer [] = Inr (''Happiness'', 0.7) \<and>
   (0 :: real) \<le> 0.7 \<and> (0.7 :: real) \<le> 1"
proof -
  have h1: "classify_emotions example_recognizer (extract_features example_recognizer []) =
     ([''Happiness''], [[0.1, 0.7, 0.2]])"
    by (simp add: example_recognizer_def)
  have h2: "classify_emotions mtl_recognizer (extract_features mtl_recognizer []) =
     ([''Happiness''], [[0.1, 0.7, 0.2, - 0.4, 1.3]])"
    by (simp add: mtl_recognizer_def recognizer_of_def)
  have e1: "classify_emotion example_recognizer [] = Inr (''Happiness'', 0.7)"
    by (simp add: classify_emotion_def example_recognizer_def invert_dict_def np_index_def
          Let_def)
  have e2: "classify_emotion mtl_recognizer [] = Inr (''Happiness'', 0.7)"
    by (simp add: classify_emotion_def mtl_recognizer_def recognizer_of_def invert_dict_def
          np_index_def Let_def)
  note T1 = classify_emotion_label_and_confidence [OF h1, of "''Happiness''" "0.7" 1]
  note T2 = classify_emotion_label_and_confidence [OF h2, of "''Happiness''" "0.7" 1]
  show ?thesis
    using T1 T2 h1 h2 e1 e2
    by (simp add: example_recognizer_def mtl_recognizer_def recognizer_of_def)
qed

subsection \<open>render\_history\<close>

lemma ids_increasing_empty: "ids_increasing empty_db"
  by (simp add: ids_increasing_def empty_db_def)



lemma for_each_history:
  "for_each rows (\<lambda>(nm, ts, emo, conf). st (St_write (History_line ts nm emo conf))) w =
     (Inr (), w\<lparr>st_events := st_events w @ map history_line rows\<rparr>)"
proof (induction rows arbitrary: w)
  case Nil
  then show ?case by (simp add: ret_def)
next
  case (Cons r rows)
  then show ?case
    by (cases r) (simp add: bindp_def st_def history_line_def)
qed

lemma render_history_never_raises: "fst (render_history conn w) = Inr ()"
  by (auto simp: render_history_def prog_defs is_Exception_def for_each_history
      split: list.splits option.splits prod.splits sum.splits if_splits)



lemma save_result_store:
  assumes "healthy 3 c w" and "USE_POSTGRES w \<longleftrightarrow> c = Pg_conn"
    and "accepted c (Insert_into_usage nm (saved_timestamp ts w) img emo conf)"
  shows "fst (save_result (Some c) nm img emo conf ts w) = Inr () \<and>
         st_events (snd (save_result (Some c) nm img emo conf ts w)) = st_events w \<and>
         faults (snd (save_result (Some c) nm img emo conf ts w)) = drop 3 (faults w) \<and>
         store_of c (snd (save_result (Some c) nm img emo conf ts w)) =
           (store_of c w)\<lparr>usage_rows := usage_rows (store_of c w) @
               [\<lparr>col_id = Suc (id_seq (store_of c w)), col_name = nm,
                 col_timestamp = saved_timestamp ts w,
                 col_image = img, col_emotion = emo, col_confidence = conf\<rparr>],
             id_seq := Suc (id_seq (store_of c w))\<rparr>"
  using assms
  by (cases c; cases ts)
     (auto simp: save_result_def healthy_def exec_defs execute_accepted saved_timestamp_def
      split: list.splits option.splits)



lemma render_history_fetch:
  "render_history conn =
     (if conn = None then st (St_error ''Database connection failed'')
      else
        bindp (st (St_expander ''See usage history'')) (\<lambda>_.
        try_except
          (bindp (fetch_recent conn 100) (\<lambda>rows.
             if rows \<noteq> [] then
               bindp (st (St_write (Plain ''## Recent entries''))) (\<lambda>_.
               for_each rows (\<lambda>(nm, ts, emo, conf). st (St_write (History_line ts nm emo conf))))
             else st (St_info ''No records found.'')))
          is_Exception
          (\<lambda>e. st (St_error (''Error fetching history: '' @ exn_str e)))))"
  by (rule ext)
     (simp add: render_history_def fetch_recent_def bindp_def try_except_def
        split: prod.splits sum.splits)







text \<open>After two saves the page shows both rows, the later one first.\<close>

lemma render_history_after_two_saves:
  "st_events (snd (render_history (Some Sqlite_conn)
     (snd (save_result (Some Sqlite_conn) ''Bob'' [4, 5] ''Sadness'' 0.8 None
       (snd (save_result (Some Sqlite_conn) ''Alice'' [1, 2, 3] ''Happiness'' 0.9 None
          (sqlite_world []))))))) =
   [St_expander ''See usage history'', St_write (Plain ''## Recent entries''),
    St_write (History_line ''2024-05-01T12:00:00'' ''Bob'' ''Sadness'' 0.8),
    St_write (History_line ''2024-05-01T12:00:00'' ''Alice'' ''Happiness'' 0.9)]"
  by (simp add: render_history_def save_result_def prog_defs world_defs is_Exception_def
        display_def)

subsection \<open>main\<close>

text \<open>A run of \<open>main\<close>, step by step.\<close>

lemma main_steps:
  "main L ws w =
     (case init_database (page_head w) of
        (Inl e, w2) \<Rightarrow> (Inl e, w2)
      | (Inr conn, w2) \<Rightarrow>
         (case acquire_image L ws (radio_mode ws) (page_inputs L ws w2) of
            (Inl e, w4) \<Rightarrow> (Inl e, w4)
          | (Inr (img, raw), w4) \<Rightarrow>
             (case infer_and_offer_save L ws conn (recognizer_of_page L ws)
                     (text_input_name ws) (device_of ws) img raw w4 of
                (Inl e, w5) \<Rightarrow> (Inl e, w5)
              | (Inr u, w5) \<Rightarrow> render_history conn w5)))"
  by (simp add: main_def bindp_def ret_def st_def widget_def new_recognizer_def Let_def
        page_head_def page_inputs_def device_of_def recognizer_of_page_def
      split: prod.splits sum.splits)

lemma detect_first_face_world:
  "detect_first_face L frame device w =
     (detected L frame device,
      w\<lparr>models_built := models_built w @ [MTCNN_built (face_detector device)]\<rparr>)"
  by (simp add: detected_def detect_first_face_def MTCNN_def face_detector_def [symmetric]
        Let_def bindp_def ret_def lift_def
      split: option.splits prod.splits sum.splits)

lemma acquire_image_result:
  "acquire_image L ws (radio_mode ws) w =
     (case submitted ws of
        None \<Rightarrow> Inr (None, None)
      | Some raw \<Rightarrow>
         (case image_open_rgb L raw of
            Inl e \<Rightarrow> Inl e
          | Inr img \<Rightarrow> Inr (Some img, Some raw)),
      acquired ws w)"
  by (simp add: acquire_image_def submitted_def acquired_def bindp_def ret_def st_def
        widget_def lift_def
      split: option.splits sum.splits)

lemma keepsD: "keeps obs m \<Longrightarrow> obs (snd (m w)) = obs w"
  by (simp add: keeps_def)

lemma keeps_ret: "keeps obs (ret x)"
  by (simp add: keeps_def ret_def)

lemma keeps_raise: "keeps obs (raise e)"
  by (simp add: keeps_def raise_def)

lemma keeps_lift: "keeps obs (lift r)"
  by (simp add: keeps_def lift_def)

lemma keeps_reads: "keeps obs (reads f)"
  by (simp add: keeps_def reads_def)

lemma keeps_environ: "keeps obs environ_DATABASE_URL"
  by (simp add: keeps_def environ_DATABASE_URL_def split: option.splits)

lemma keeps_case_option:
  "keeps obs a \<Longrightarrow> (\<And>x. keeps obs (b x)) \<Longrightarrow> keeps obs (case_option a b v)"
  by (cases v) simp_all

lemma keeps_bindp: "keeps obs m \<Longrightarrow> (\<And>x. keeps obs (f x)) \<Longrightarrow> keeps obs (bindp m f)"
  by (auto simp: keeps_def bindp_def split: prod.splits sum.splits) (metis snd_conv)+

lemma keeps_try_except:
  "keeps obs body \<Longrightarrow> (\<And>e. keeps obs (handler e)) \<Longrightarrow> keeps obs (try_except body c handler)"
  by (auto simp: keeps_def try_except_def split: prod.splits sum.splits) (metis snd_conv)+

lemma keeps_if: "keeps obs a \<Longrightarrow> keeps obs b \<Longrightarrow> keeps obs (if c then a else b)"
  by simp

lemma keeps_case_prod: "(\<And>a b. keeps obs (f a b)) \<Longrightarrow> keeps obs (case_prod f x)"
  by (cases x) simp

lemma keeps_for_each: "(\<And>x. keeps obs (f x)) \<Longrightarrow> keeps obs (for_each xs f)"
  by (induction xs) (auto intro: keeps_ret keeps_bindp)

lemma keeps_st:
  "(\<And>w. obs (w\<lparr>st_events := st_events w @ [ev]\<rparr>) = obs w) \<Longrightarrow> keeps obs (st ev)"
  by (simp add: keeps_def st_def)

lemma keeps_driver_call:
  "(\<And>w fs. obs (w\<lparr>faults := fs\<rparr>) = obs w) \<Longrightarrow> keeps obs (driver_call c)"
  by (auto simp: keeps_def driver_call_def split: list.splits option.splits)

lemma keeps_cursor:
  "(\<And>w fs. obs (w\<lparr>faults := fs\<rparr>) = obs w) \<Longrightarrow> keeps obs (cursor conn)"
  by (cases conn) (auto intro: keeps_raise keeps_bindp keeps_ret keeps_driver_call)

lemma keeps_commit:
  "(\<And>w fs. obs (w\<lparr>faults := fs\<rparr>) = obs w) \<Longrightarrow> keeps obs (commit conn)"
  by (cases conn) (auto intro: keeps_raise keeps_driver_call)

lemma keeps_connect:
  "(\<And>w fs. obs (w\<lparr>faults := fs\<rparr>) = obs w) \<Longrightarrow>
   keeps obs (psycopg2_connect url) \<and> keeps obs (sqlite3_connect path)"
  by (auto simp: psycopg2_connect_def sqlite3_connect_def
      intro: keeps_bindp keeps_ret keeps_driver_call)

lemma keeps_fetchall:
  "(\<And>w fs. obs (w\<lparr>faults := fs\<rparr>) = obs w) \<Longrightarrow> keeps obs (fetchall c rs)"
  by (auto simp: fetchall_def intro: keeps_bindp keeps_ret keeps_driver_call)

lemma keeps_adapt: "keeps obs (adapt c s)"
  by (simp add: keeps_def adapt_def raise_def ret_def)

lemma keeps_execute:
  assumes "\<And>w fs. obs (w\<lparr>faults := fs\<rparr>) = obs w"
    and "\<And>w rs d. sql_exec s (store_of c w) = Inr (rs, d) \<Longrightarrow> obs (set_store c d w) = obs w"
  shows "keeps obs (execute c s)"
proof -
  have "keeps obs (\<lambda>w. case sql_exec s (store_of c w) of
                          Inl m \<Rightarrow> (Inl (backend_error c m), w)
                        | Inr (rs, d) \<Rightarrow> (Inr rs, set_store c d w))"
    using assms(2) by (auto simp: keeps_def split: sum.splits)
  then show ?thesis
    unfolding execute_def by (intro keeps_bindp keeps_adapt keeps_driver_call assms(1))
qed

lemma page_obs_blind:
  "page_obs (w\<lparr>faults := fs\<rparr>) = page_obs w"
  "page_obs (set_store c d w) = page_obs w"
  by (cases c; simp add: page_obs_def buttons_def warnings_def)+

lemma all_rows_blind:
  "all_rows (w\<lparr>faults := fs\<rparr>) = all_rows w"
  "all_rows (w\<lparr>st_events := evs\<rparr>) = all_rows w"
  "all_rows (w\<lparr>models_built := ms\<rparr>) = all_rows w"
  by (simp_all add: all_rows_def)

lemma all_rows_execute:
  assumes "\<And>n ts img e cf. s \<noteq> Insert_into_usage n ts img e cf"
  shows "keeps all_rows (execute c s)"
proof (rule keeps_execute)
  fix w rs d
  assume "sql_exec s (store_of c w) = Inr (rs, d)"
  then show "all_rows (set_store c d w) = all_rows w"
    using assms by (cases s; cases c) (auto simp: all_rows_def split: if_splits)
qed (simp add: all_rows_blind)

lemmas keeps_intros =
  keeps_ret keeps_raise keeps_lift keeps_reads keeps_environ keeps_bindp keeps_try_except
  keeps_if keeps_case_prod keeps_case_option keeps_for_each keeps_cursor keeps_commit keeps_fetchall
  keeps_connect [THEN conjunct1] keeps_connect [THEN conjunct2]

lemma init_database_page_obs: "keeps page_obs init_database"
  unfolding init_database_def
  by (intro keeps_intros keeps_execute keeps_st)
     (simp_all add: page_obs_blind, simp_all add: page_obs_def buttons_def warnings_def)

lemma init_database_all_rows: "keeps all_rows init_database"
  unfolding init_database_def
  by (intro keeps_intros all_rows_execute keeps_st) (simp_all add: all_rows_blind)

lemma render_history_page_obs: "keeps page_obs (render_history conn)"
  unfolding render_history_def
  by (intro keeps_intros keeps_execute keeps_st)
     (simp_all add: page_obs_blind, simp_all add: page_obs_def buttons_def warnings_def)

lemma render_history_all_rows: "keeps all_rows (render_history conn)"
  unfolding render_history_def
  by (intro keeps_intros all_rows_execute keeps_st) (simp_all add: all_rows_blind)

lemma save_result_page_obs: "keeps page_obs (save_result conn nm img emo conf ts)"
  unfolding save_result_def
  by (intro keeps_intros keeps_execute keeps_st)
     (simp_all add: page_obs_blind, simp_all add: page_obs_def buttons_def warnings_def)

lemma infer_no_input:
  "img = None \<or> raw = None \<or> nm = [] \<Longrightarrow>
   infer_and_offer_save L ws conn rec nm dev img raw w = (Inr (), w)"
  by (auto simp: infer_and_offer_save_def ret_def split: option.splits)

lemma infer_eval:
  assumes "nm \<noteq> []"
  shows "infer_and_offer_save L ws conn rec nm dev (Some i) (Some r) w =
     (case detected L i dev of
        Inl e \<Rightarrow> (Inl e, w\<lparr>models_built := models_built w @ [MTCNN_built (face_detector dev)]\<rparr>)
      | Inr None \<Rightarrow>
         (Inr (), w\<lparr>models_built := models_built w @ [MTCNN_built (face_detector dev)],
                     st_events := st_events w @ [St_warning ''No face detected in the image.'']\<rparr>)
      | Inr (Some f) \<Rightarrow>
         (case classify_emotion rec f of
            Inl e \<Rightarrow> (Inl e, w\<lparr>models_built := models_built w @ [MTCNN_built (face_detector dev)]\<rparr>)
          | Inr (emo, conf) \<Rightarrow>
             (if button_save ws then
                (case save_result conn nm r emo conf None
                        (w\<lparr>models_built := models_built w @ [MTCNN_built (face_detector dev)],
                           st_events := st_events w @
                             [St_success (Prediction emo conf), St_button ''Save result'']\<rparr>) of
                   (Inl e, w3) \<Rightarrow> (Inl e, w3)
                 | (Inr u, w3) \<Rightarrow>
                    (Inr (), w3\<lparr>st_events := st_events w3 @ [St_toast ''Result saved to database.'']\<rparr>))
              else
                (Inr (), w\<lparr>models_built := models_built w @ [MTCNN_built (face_detector dev)],
                            st_events := st_events w @
                              [St_success (Prediction emo conf), St_button ''Save result'']\<rparr>))))"
  using assms
  by (simp add: infer_and_offer_save_def detect_first_face_world bindp_def ret_def st_def
        widget_def lift_def
      split: option.splits sum.splits prod.splits)

lemma main_cases [case_names init_raised no_input decode_raised image]:
  obtains
    e w2 where "init_database (page_head w) = (Inl e, w2)" "main L ws w = (Inl e, w2)"
  | conn w2 where "init_database (page_head w) = (Inr conn, w2)" "submitted ws = None"
      "main L ws w = render_history conn (acquired ws (page_inputs L ws w2))"
  | conn w2 r e where "init_database (page_head w) = (Inr conn, w2)" "submitted ws = Some r"
      "image_open_rgb L r = Inl e"
      "main L ws w = (Inl e, acquired ws (page_inputs L ws w2))"
  | conn w2 r i where "init_database (page_head w) = (Inr conn, w2)" "submitted ws = Some r"
      "image_open_rgb L r = Inr i"
      "main L ws w =
         (case infer_and_offer_save L ws conn (recognizer_of_page L ws)
                 (text_input_name ws) (device_of ws) (Some i) (Some r)
                 (acquired ws (page_inputs L ws w2)) of
            (Inl e, w5) \<Rightarrow> (Inl e, w5)
          | (Inr u, w5) \<Rightarrow> render_history conn w5)"
proof -
  obtain r2 w2 where i: "init_database (page_head w) = (r2, w2)" by force
  show thesis
  proof (cases r2)
    case (Inl e)
    then show ?thesis using i that(1) by (simp add: main_steps)
  next
    case (Inr conn)
    show ?thesis
    proof (cases "submitted ws")
      case None
      then show ?thesis
        using i Inr that(2) [of conn w2]
        by (simp add: main_steps acquire_image_result infer_no_input)
    next
      case (Some r)
      show ?thesis
      proof (cases "image_open_rgb L r")
        case (Inl e)
        then show ?thesis
          using i Inr Some that(3) [of conn w2 r e]
          by (simp add: main_steps acquire_image_result)
      next
        case (Inr img)
        then show ?thesis
          using i \<open>r2 = Inr conn\<close> Some that(4) [of conn w2 r img]
          by (simp add: main_steps acquire_image_result)
      qed
    qed
  qed
qed

lemma init_database_obs:
  assumes "init_database w = (r, w')"
  shows "models_built w' = models_built w" "buttons w' = buttons w" "warnings w' = warnings w"
    "all_rows w' = all_rows w"
  using keepsD [OF init_database_page_obs, of w] keepsD [OF init_database_all_rows, of w] assms
  by (simp_all add: page_obs_def)

lemma render_history_obs:
  assumes "render_history conn w = (r, w')"
  shows "models_built w' = models_built w" "buttons w' = buttons w" "warnings w' = warnings w"
    "all_rows w' = all_rows w"
  using keepsD [OF render_history_page_obs, of conn w] keepsD [OF render_history_all_rows, of conn w]
    assms
  by (simp_all add: page_obs_def)

lemma save_result_obs:
  assumes "save_result conn nm img emo conf ts w = (r, w')"
  shows "models_built w' = models_built w" "buttons w' = buttons w" "warnings w' = warnings w"
  using keepsD [OF save_result_page_obs, of conn nm img emo conf ts w] assms
  by (simp_all add: page_obs_def)

lemma page_head_obs:
  "models_built (page_head w) = models_built w" "buttons (page_head w) = buttons w"
  "warnings (page_head w) = warnings w" "all_rows (page_head w) = all_rows w"
  by (simp_all add: page_head_def buttons_def warnings_def all_rows_def)

lemma page_inputs_obs:
  "models_built (acquired ws (page_inputs L ws w)) =
     models_built w @ [Recognizer_built ''torch'' (selectbox_model ws) (device_of ws)]"
  "buttons (acquired ws (page_inputs L ws w)) = buttons w"
  "warnings (acquired ws (page_inputs L ws w)) = warnings w"
  "all_rows (acquired ws (page_inputs L ws w)) = all_rows w"
  by (simp_all add: page_inputs_def acquired_def buttons_def warnings_def all_rows_def)

lemma infer_models:
  assumes "infer_and_offer_save L ws conn rec nm dev img raw w = (res, w')"
  shows "models_built w' =
           models_built w @ (if img \<noteq> None \<and> raw \<noteq> None \<and> nm \<noteq> []
                             then [MTCNN_built (face_detector dev)] else [])"
proof (cases "img = None \<or> raw = None \<or> nm = []")
  case True
  then show ?thesis using assms infer_no_input [OF True] by auto
next
  case False
  then obtain i r where ir: "img = Some i" "raw = Some r" and nm: "nm \<noteq> []" by auto
  show ?thesis
    using assms nm unfolding ir infer_eval [OF nm]
    by (auto split: sum.splits option.splits prod.splits if_splits dest: save_result_obs(1))
qed

lemma infer_quiet:
  assumes "infer_and_offer_save L ws conn rec nm dev (Some i) (Some r) w = (res, w')"
    and "\<And>f. detected L i dev \<noteq> Inr (Some f)"
  shows "buttons w' = buttons w \<and> all_rows w' = all_rows w"
proof (cases "nm = []")
  case True
  then show ?thesis using assms(1) by (simp add: infer_no_input)
next
  case False
  show ?thesis
    using assms unfolding infer_eval [OF False]
    by (auto simp: buttons_def all_rows_def split: sum.splits option.splits)
qed

lemma main_models:
  "\<exists>ms. models_built (snd (main L ws w)) = models_built w @ ms \<and>
        (ms = [] \<or>
         ms = [Recognizer_built ''torch'' (selectbox_model ws) (device_of ws)] \<or>
         ms = [Recognizer_built ''torch'' (selectbox_model ws) (device_of ws),
               MTCNN_built (face_detector (device_of ws))])"
proof (cases rule: main_cases [of w L ws])
  case (init_raised e w2)
  then show ?thesis using init_database_obs(1) [OF init_raised(1)] by (simp add: page_head_obs)
next
  case (no_input conn w2)
  obtain r6 w6 where r: "render_history conn (acquired ws (page_inputs L ws w2)) = (r6, w6)"
    by force
  show ?thesis
    using no_input(3) r render_history_obs(1) [OF r] init_database_obs(1) [OF no_input(1)]
    by (simp add: page_head_obs page_inputs_obs)
next
  case (decode_raised conn w2 r e)
  then show ?thesis
    using init_database_obs(1) [OF decode_raised(1)] by (simp add: page_head_obs page_inputs_obs)
next
  case (image conn w2 r i)
  obtain r5 w5 where f: "infer_and_offer_save L ws conn (recognizer_of_page L ws)
                 (text_input_name ws) (device_of ws) (Some i) (Some r)
                 (acquired ws (page_inputs L ws w2)) = (r5, w5)" by force
  obtain r6 w6 where r: "render_history conn w5 = (r6, w6)" by force
  have m5: "models_built w5 = models_built w @
              Recognizer_built ''torch'' (selectbox_model ws) (device_of ws) #
              (if text_input_name ws \<noteq> [] then [MTCNN_built (face_detector (device_of ws))] else [])"
    using infer_models [OF f] init_database_obs(1) [OF image(1)]
    by (simp add: page_head_obs page_inputs_obs)
  show ?thesis
  proof (cases r5)
    case (Inl e)
    then show ?thesis using image(4) f m5 by simp
  next
    case (Inr u)
    then show ?thesis using image(4) f r m5 render_history_obs(1) [OF r] by simp
  qed
qed

lemma main_no_face:
  assumes "face_found L ws = None"
  shows "buttons (snd (main L ws w)) = buttons w \<and> all_rows (snd (main L ws w)) = all_rows w"
proof (cases rule: main_cases [of w L ws])
  case (init_raised e w2)
  then show ?thesis using init_database_obs [OF init_raised(1)] by (simp add: page_head_obs)
next
  case (no_input conn w2)
  obtain r6 w6 where r: "render_history conn (acquired ws (page_inputs L ws w2)) = (r6, w6)"
    by force
  show ?thesis
    using no_input(3) r render_history_obs [OF r] init_database_obs [OF no_input(1)]
    by (simp add: page_head_obs page_inputs_obs)
next
  case (decode_raised conn w2 r e)
  then show ?thesis
    using init_database_obs [OF decode_raised(1)] by (simp add: page_head_obs page_inputs_obs)
next
  case (image conn w2 r i)
  obtain r5 w5 where f: "infer_and_offer_save L ws conn (recognizer_of_page L ws)
                 (text_input_name ws) (device_of ws) (Some i) (Some r)
                 (acquired ws (page_inputs L ws w2)) = (r5, w5)" by force
  obtain r6 w6 where r: "render_history conn w5 = (r6, w6)" by force
  have nf: "detected L i (device_of ws) \<noteq> Inr (Some f)" for f
    using assms image(2,3) by (auto simp: face_found_def)
  have q5: "buttons w5 = buttons w \<and> all_rows w5 = all_rows w"
    using infer_quiet [OF f nf] init_database_obs [OF image(1)]
    by (simp add: page_head_obs page_inputs_obs)
  show ?thesis
  proof (cases r5)
    case (Inl e)
    then show ?thesis using image(4) f q5 by simp
  next
    case (Inr u)
    then show ?thesis using image(4) f r q5 render_history_obs [OF r] by simp
  qed
qed

lemma main_warning:
  assumes "submitted ws = Some r" "image_open_rgb L r = Inr i" "text_input_name ws \<noteq> []"
    and "detected L i (device_of ws) = Inr None" and "fst (main L ws w) = Inr ()"
  shows "warnings (snd (main L ws w)) = Suc (warnings w)"
proof (cases rule: main_cases [of w L ws])
  case (init_raised e w2)
  then show ?thesis using assms(5) by simp
next
  case (no_input conn w2)
  then show ?thesis using assms(1) by simp
next
  case (decode_raised conn w2 r' e)
  then show ?thesis using assms(1,2) by simp
next
  case (image conn w2 r' i')
  then have eq: "r' = r" "i' = i" using assms(1,2) by simp_all
  let ?w4 = "acquired ws (page_inputs L ws w2)"
  obtain r6 w6 where r: "render_history conn
      (?w4\<lparr>models_built := models_built ?w4 @ [MTCNN_built (face_detector (device_of ws))],
            st_events := st_events ?w4 @ [St_warning ''No face detected in the image.'']\<rparr>) =
      (r6, w6)" by force
  have "warnings w6 = Suc (warnings ?w4)"
    using render_history_obs(3) [OF r] by (simp add: warnings_def)
  then show ?thesis
    using image(4) r init_database_obs(3) [OF image(1)] assms(3,4)
    by (simp add: eq infer_eval page_head_obs page_inputs_obs)
qed

lemma store_of_blind:
  "store_of c (w\<lparr>st_events := evs\<rparr>) = store_of c w"
  "store_of c (w\<lparr>models_built := ms\<rparr>) = store_of c w"
  by (cases c; simp)+

lemma usage_rows_store:
  "all_rows w' = all_rows w \<Longrightarrow> usage_rows (store_of c w') = usage_rows (store_of c w)"
  by (cases c) (simp_all add: all_rows_def)

lemma ensure_mono: "x \<in> set cat \<Longrightarrow> x \<in> set (ensure y cat)"
  by (simp add: ensure_def)

lemma ensure_table:
  "(''usage'' \<in> set (map obj_name cat) \<longrightarrow> Table ''usage'' \<in> set cat) \<Longrightarrow>
   Table ''usage'' \<in> set (ensure (Table ''usage'') cat)"
  by (auto simp: ensure_def)

lemma init_database_ready:
  assumes "faults w = []"
    and "c = (if USE_POSTGRES w then Pg_conn else Sqlite_conn)"
    and "''usage'' \<in> set (map obj_name (catalog (store_of c w))) \<longrightarrow>
         Table ''usage'' \<in> set (catalog (store_of c w))"
  shows "\<exists>w2. init_database w = (Inr (Some c), w2) \<and> faults w2 = [] \<and>
              Table ''usage'' \<in> set (catalog (store_of c w2)) \<and>
              usage_rows (store_of c w2) = usage_rows (store_of c w) \<and>
              id_seq (store_of c w2) = id_seq (store_of c w) \<and>
              utcnow_isoformat w2 = utcnow_isoformat w \<and>
              st_events w2 = st_events w \<and>
              USE_POSTGRES w2 = USE_POSTGRES w"
proof (cases "USE_POSTGRES w")
  case True
  then have c: "c = Pg_conn" using assms(2) by simp
  have n: "''usage'' \<in> set (map obj_name (catalog (pg_store w))) \<longrightarrow>
         Table ''usage'' \<in> set (catalog (pg_store w))"
    using assms(3) c by simp
  show ?thesis
    using init_database_pg [OF True assms(1) n] assms(1) c ensure_table [OF n]
    by (simp add: ensure_mono USE_POSTGRES_def)
next
  case False
  then have c: "c = Sqlite_conn" using assms(2) by simp
  have n: "''usage'' \<in> set (map obj_name (catalog (sqlite_store w))) \<longrightarrow>
         Table ''usage'' \<in> set (catalog (sqlite_store w))"
    using assms(3) c by simp
  show ?thesis
    using init_database_sqlite [OF False assms(1)] assms(1) c ensure_table [OF n]
    by (simp add: USE_POSTGRES_def)
qed

lemma main_invokes_save:
  assumes i: "init_database (page_head w) = (Inr conn, w2)"
    and sub: "submitted ws = Some r" "image_open_rgb L r = Inr img"
    and nm: "text_input_name ws \<noteq> []"
    and face: "detected L img (device_of ws) = Inr (Some f)"
    and cls: "classify_emotion (recognizer_of_page L ws) f = Inr (emo, conf)"
    and click: "button_save ws"
  shows "main L ws w =
           (case save_result conn (text_input_name ws) r emo conf None (offered L ws emo conf w2) of
              (Inl e, w6) \<Rightarrow> (Inl e, w6)
            | (Inr u, w6) \<Rightarrow>
               render_history conn
                 (w6\<lparr>st_events := st_events w6 @ [St_toast ''Result saved to database.'']\<rparr>))"
proof (cases rule: main_cases [of w L ws])
  case (image conn' w2' r' i')
  then have "conn' = conn" "w2' = w2" "r' = r" "i' = img" using i sub by simp_all
  then show ?thesis
    using image(4) face cls click
    by (simp add: infer_eval [OF nm] offered_def split: prod.splits sum.splits)
qed (use i sub in simp_all)

lemma main_confirm:
  assumes sub: "submitted ws = Some r" "image_open_rgb L r = Inr i"
    and nm: "text_input_name ws \<noteq> []"
    and face: "detected L i (device_of ws) = Inr (Some f)"
    and cls: "classify_emotion (recognizer_of_page L ws) f = Inr (emo, conf)"
    and click: "button_save ws"
    and ok: "faults w = []"
    and c: "c = (if USE_POSTGRES w then Pg_conn else Sqlite_conn)"
    and pgc: "''usage'' \<in> set (map obj_name (catalog (store_of c w))) \<longrightarrow>
              Table ''usage'' \<in> set (catalog (store_of c w))"
    and acc: "accepted c (Insert_into_usage (text_input_name ws) (utcnow_isoformat w) r emo conf)"
  shows "fst (main L ws w) = Inr () \<and>
         usage_rows (store_of c (snd (main L ws w))) =
           usage_rows (store_of c w) @
             [\<lparr>col_id = Suc (id_seq (store_of c w)), col_name = text_input_name ws,
               col_timestamp = utcnow_isoformat w, col_image = r,
               col_emotion = emo, col_confidence = conf\<rparr>]"
proof -
  have ph: "faults (page_head w) = []"
    "c = (if USE_POSTGRES (page_head w) then Pg_conn else Sqlite_conn)"
    "''usage'' \<in> set (map obj_name (catalog (store_of c (page_head w)))) \<longrightarrow>
         Table ''usage'' \<in> set (catalog (store_of c (page_head w)))"
    using ok pgc c by (simp_all add: page_head_def USE_POSTGRES_def store_of_blind)
  from init_database_ready [OF ph] obtain w2 where
    i: "init_database (page_head w) = (Inr (Some c), w2)" and f2: "faults w2 = []"
    and t2: "Table ''usage'' \<in> set (catalog (store_of c w2))"
    and r2: "usage_rows (store_of c w2) = usage_rows (store_of c w)"
    and s2: "id_seq (store_of c w2) = id_seq (store_of c w)"
    and u2: "utcnow_isoformat w2 = utcnow_isoformat w"
    and p2: "USE_POSTGRES w2 = USE_POSTGRES w"
    by (auto simp: page_head_def store_of_blind USE_POSTGRES_def)
  let ?w5 = "offered L ws emo conf w2"
  have h: "healthy 3 c ?w5"
    using f2 t2 by (simp add: healthy_def offered_def acquired_def page_inputs_def store_of_blind)
  have u: "USE_POSTGRES ?w5 \<longleftrightarrow> c = Pg_conn"
    using p2 c by (simp add: USE_POSTGRES_def offered_def acquired_def page_inputs_def)
  have t5: "saved_timestamp None ?w5 = utcnow_isoformat w"
    using u2 by (simp add: saved_timestamp_def offered_def acquired_def page_inputs_def)
  have a5: "accepted c (Insert_into_usage (text_input_name ws) (saved_timestamp None ?w5) r emo conf)"
    using acc by (simp only: t5)
  note S = save_result_store [OF h u a5, unfolded t5]
  obtain r6 w6 where s: "save_result (Some c) (text_input_name ws) r emo conf None ?w5 = (r6, w6)"
    by force
  have r6: "r6 = Inr ()" using S s by simp
  have rows6: "usage_rows (store_of c w6) =
           usage_rows (store_of c w) @
             [\<lparr>col_id = Suc (id_seq (store_of c w)), col_name = text_input_name ws,
               col_timestamp = utcnow_isoformat w, col_image = r,
               col_emotion = emo, col_confidence = conf\<rparr>]"
    using S s r2 s2 by (simp add: offered_def acquired_def page_inputs_def store_of_blind)
  let ?w7 = "w6\<lparr>st_events := st_events w6 @ [St_toast ''Result saved to database.'']\<rparr>"
  have m: "main L ws w = render_history (Some c) ?w7"
    using main_invokes_save [OF i sub nm face cls click] s r6 by simp
  obtain r8 w8 where rh: "render_history (Some c) ?w7 = (r8, w8)" by force
  have "r8 = Inr ()" using render_history_never_raises [of "Some c" ?w7] rh by simp
  moreover have "usage_rows (store_of c w8) = usage_rows (store_of c ?w7)"
    using render_history_obs(4) [OF rh] by (rule usage_rows_store)
  ultimately show ?thesis
    using m rh rows6 by (simp add: store_of_blind)
qed

lemma infer_unclicked:
  assumes "infer_and_offer_save L ws conn rec nm dev img raw w = (res, w')"
    and "\<not> button_save ws"
  shows "all_rows w' = all_rows w"
proof (cases "img = None \<or> raw = None \<or> nm = []")
  case True
  then show ?thesis using assms infer_no_input [OF True] by auto
next
  case False
  then obtain i r where ir: "img = Some i" "raw = Some r" and nm: "nm \<noteq> []" by auto
  show ?thesis
    using assms unfolding ir infer_eval [OF nm]
    by (auto simp: all_rows_def split: sum.splits option.splits prod.splits)
qed

lemma main_unclicked:
  assumes "\<not> button_save ws"
  shows "all_rows (snd (main L ws w)) = all_rows w"
proof (cases rule: main_cases [of w L ws])
  case (init_raised e w2)
  then show ?thesis using init_database_obs [OF init_raised(1)] by (simp add: page_head_obs)
next
  case (no_input conn w2)
  obtain r6 w6 where r: "render_history conn (acquired ws (page_inputs L ws w2)) = (r6, w6)"
    by force
  show ?thesis
    using no_input(3) r render_history_obs [OF r] init_database_obs [OF no_input(1)]
    by (simp add: page_head_obs page_inputs_obs)
next
  case (decode_raised conn w2 r e)
  then show ?thesis
    using init_database_obs [OF decode_raised(1)] by (simp add: page_head_obs page_inputs_obs)
next
  case (image conn w2 r i)
  obtain r5 w5 where f: "infer_and_offer_save L ws conn (recognizer_of_page L ws)
                 (text_input_name ws) (device_of ws) (Some i) (Some r)
                 (acquired ws (page_inputs L ws w2)) = (r5, w5)" by force
  obtain r6 w6 where r: "render_history conn w5 = (r6, w6)" by force
  have q5: "all_rows w5 = all_rows w"
    using infer_unclicked [OF f assms] init_database_obs [OF image(1)]
    by (simp add: page_head_obs page_inputs_obs)
  show ?thesis
  proof (cases r5)
    case (Inl e)
    then show ?thesis using image(4) f q5 by simp
  next
    case (Inr u)
    then show ?thesis using image(4) f r q5 render_history_obs [OF r] by simp
  qed
qed


text \<open>
  C8. In every run of \<open>main\<close>: when no face is found in the submitted photograph, the save
  button is not shown and no row is written (so the button is shown only after a face was
  found); when the detector returns no face and the run completes, the warning is shown
  once; when the button is not pressed, no row is written. When a face is found and
  classified and the button is pressed, the run calls \<open>save_result\<close> with the connection of
  \<open>init_database\<close>, the name entered, the bytes that were submitted (not the cropped face),
  the predicted emotion and confidence and no timestamp, and goes on to the history only
  when the save returns. When, moreover, the database is available and the driver accepts
  the parameters, the run completes and writes exactly one row, whose image is the bytes
  that were submitted, with the name entered, the predicted emotion and confidence, and the
  time of the save.
\<close>

theorem main_save_flow:
  "(face_found L ws = None \<longrightarrow>
      buttons (snd (main L ws w)) = buttons w \<and> all_rows (snd (main L ws w)) = all_rows w) \<and>
   (submitted ws = Some r \<and> image_open_rgb L r = Inr i \<and> text_input_name ws \<noteq> [] \<and>
    detected L i (device_of ws) = Inr None \<and> fst (main L ws w) = Inr () \<longrightarrow>
      warnings (snd (main L ws w)) = Suc (warnings w)) \<and>
   (\<not> button_save ws \<longrightarrow> all_rows (snd (main L ws w)) = all_rows w) \<and>
   (submitted ws = Some r \<and> image_open_rgb L r = Inr i \<and> text_input_name ws \<noteq> [] \<and>
    detected L i (device_of ws) = Inr (Some f) \<and>
    classify_emotion (recognizer_of_page L ws) f = Inr (emo, conf) \<and> button_save ws \<longrightarrow>
      (init_database (page_head w) = (Inr conn, w2) \<longrightarrow>
         main L ws w =
           (case save_result conn (text_input_name ws) r emo conf None
                   (offered L ws emo conf w2) of
              (Inl e, w6) \<Rightarrow> (Inl e, w6)
            | (Inr u, w6) \<Rightarrow>
               render_history conn
                 (w6\<lparr>st_events := st_events w6 @ [St_toast ''Result saved to database.'']\<rparr>))) \<and>
      (faults w = [] \<and> c = (if USE_POSTGRES w then Pg_conn else Sqlite_conn) \<and>
       (''usage'' \<in> set (map obj_name (catalog (store_of c w))) \<longrightarrow>
        Table ''usage'' \<in> set (catalog (store_of c w))) \<and>
       accepted c (Insert_into_usage (text_input_name ws) (utcnow_isoformat w) r emo conf) \<longrightarrow>
         fst (main L ws w) = Inr () \<and>
         usage_rows (store_of c (snd (main L ws w))) =
           usage_rows (store_of c w) @
             [\<lparr>col_id = Suc (id_seq (store_of c w)), col_name = text_input_name ws,
               col_timestamp = utcnow_isoformat w, col_image = r,
               col_emotion = emo, col_confidence = conf\<rparr>]))"
  using main_no_face [of L ws w] main_warning [of ws r L i w] main_unclicked [of ws L w]
    main_confirm [of ws r L i f emo conf w c]
    main_invokes_save [of w conn w2 ws r L i f emo conf]
  by blast

lemma bob_no_face:
  "face_found (libs_of (None, None) example_recognizer) (example_widgets ''Bob'' True) = None"
  "submitted (example_widgets ''Bob'' True) = Some [255, 216, 255]"
  "image_open_rgb (libs_of (None, None) example_recognizer) [255, 216, 255] = Inr example_frame"
  "detected (libs_of (None, None) example_recognizer) example_frame
     (device_of (example_widgets ''Bob'' True)) = Inr None"
  by (simp_all add: face_found_def submitted_def example_widgets_def libs_of_def detected_def
        detect_first_face_def MTCNN_def Let_def bindp_def ret_def device_of_def)

lemma bob_completes:
  "fst (main (libs_of (None, None) example_recognizer) (example_widgets ''Bob'' True)
          (fresh_world None [])) = Inr ()"
proof (cases rule: main_cases [of "fresh_world None []" "libs_of (None, None) example_recognizer"
         "example_widgets ''Bob'' True"])
  case (image conn w2 r i)
  then show ?thesis
    using bob_no_face
    by (simp add: infer_eval example_widgets_def render_history_never_raises)
qed (simp_all add: bob_no_face libs_of_def init_database_def prog_defs world_defs page_head_def)

lemma alice_face:
  "submitted (example_widgets ''Alice'' True) = Some [255, 216, 255]"
  "image_open_rgb (libs_of (Some [(0, 0, 2, 2)], Some [0.9]) example_recognizer) [255, 216, 255] =
     Inr example_frame"
  "text_input_name (example_widgets ''Alice'' True) \<noteq> []"
  "detected (libs_of (Some [(0, 0, 2, 2)], Some [0.9]) example_recognizer) example_frame
     (device_of (example_widgets ''Alice'' True)) =
     Inr (Some [[[1, 1, 1], [2, 2, 2]], [[4, 4, 4], [5, 5, 5]]])"
  "classify_emotion (recognizer_of_page (libs_of (Some [(0, 0, 2, 2)], Some [0.9]) example_recognizer)
       (example_widgets ''Alice'' True)) [[[1, 1, 1], [2, 2, 2]], [[4, 4, 4], [5, 5, 5]]] =
     Inr (''Happiness'', 0.7)"
  "button_save (example_widgets ''Alice'' True)"
  by (simp_all add: submitted_def example_widgets_def libs_of_def detected_def
        detect_first_face_def MTCNN_def Let_def bindp_def ret_def lift_def device_of_def
        np_argmax_def np_index_def astype_int_def crop_def py_slice_def slice_bound_def
        example_frame_def recognizer_of_page_def classify_emotion_def example_recognizer_def
        invert_dict_def)


text \<open>A name with a NUL character on the networked backend: the database is set up, and
  the save raises.\<close>

lemma mallory_refused:
  "init_database (page_head (fresh_world (Some ''postgresql://db/app'') [])) =
     (Inr (Some Pg_conn), page_head (pg_world []))"
  "fst (save_result (Some Pg_conn) [CHR ''M'', CHR 0x00] [255, 216, 255] ''Happiness'' 0.7 None
     (offered (libs_of (Some [(0, 0, 2, 2)], Some [0.9]) example_recognizer)
        (example_widgets [CHR ''M'', CHR 0x00] True) ''Happiness'' 0.7 (page_head (pg_world [])))) =
   Inl (ValueError ''A string literal cannot contain NUL (0x00) characters.'')"
  by (simp_all add: init_database_def save_result_def prog_defs world_defs page_head_def
        offered_def acquired_def page_inputs_def nul_free_def)


lemma mallory_face:
  "submitted (example_widgets [CHR ''M'', CHR 0x00] True) = Some [255, 216, 255]"
  "image_open_rgb (libs_of (Some [(0, 0, 2, 2)], Some [0.9]) example_recognizer) [255, 216, 255] =
     Inr example_frame"
  "text_input_name (example_widgets [CHR ''M'', CHR 0x00] True) = [CHR ''M'', CHR 0x00]"
  "detected (libs_of (Some [(0, 0, 2, 2)], Some [0.9]) example_recognizer) example_frame
     (device_of (example_widgets [CHR ''M'', CHR 0x00] True)) =
     Inr (Some [[[1, 1, 1], [2, 2, 2]], [[4, 4, 4], [5, 5, 5]]])"
  "classify_emotion (recognizer_of_page (libs_of (Some [(0, 0, 2, 2)], Some [0.9]) example_recognizer)
       (example_widgets [CHR ''M'', CHR 0x00] True)) [[[1, 1, 1], [2, 2, 2]], [[4, 4, 4], [5, 5, 5]]] =
     Inr (''Happiness'', 0.7)"
  "button_save (example_widgets [CHR ''M'', CHR 0x00] True)"
  by (simp_all add: submitted_def example_widgets_def libs_of_def detected_def
        detect_first_face_def MTCNN_def Let_def bindp_def ret_def lift_def device_of_def
        np_argmax_def np_index_def astype_int_def crop_def py_slice_def slice_bound_def
        example_frame_def recognizer_of_page_def classify_emotion_def example_recognizer_def
        invert_dict_def)

theorem main_save_flow_witness:
  "face_found (libs_of (None, None) example_recognizer) (example_widgets ''Bob'' True) = None \<and>
   submitted (example_widgets ''Bob'' True) = Some [255, 216, 255] \<and>
   fst (main (libs_of (None, None) example_recognizer) (example_widgets ''Bob'' True)
          (fresh_world None [])) = Inr () \<and>
   buttons (snd (main (libs_of (None, None) example_recognizer) (example_widgets ''Bob'' True)
          (fresh_world None []))) = 0 \<and>
   all_rows (snd (main (libs_of (None, None) example_recognizer) (example_widgets ''Bob'' True)
          (fresh_world None []))) = ([], []) \<and>
   warnings (snd (main (libs_of (None, None) example_recognizer) (example_widgets ''Bob'' True)
          (fresh_world None []))) = 1 \<and>
   submitted (example_widgets ''Alice'' True) = Some [255, 216, 255] \<and>
   detected (libs_of (Some [(0, 0, 2, 2)], Some [0.9]) example_recognizer) example_frame
     (device_of (example_widgets ''Alice'' True)) =
     Inr (Some [[[1, 1, 1], [2, 2, 2]], [[4, 4, 4], [5, 5, 5]]]) \<and>
   button_save (example_widgets ''Alice'' True) \<and>
   faults (fresh_world None []) = [] \<and>
   accepted Sqlite_conn
     (Insert_into_usage ''Alice'' ''2024-05-01T12:00:00'' [255, 216, 255] ''Happiness'' 0.7) \<and>
   fst (main (libs_of (Some [(0, 0, 2, 2)], Some [0.9]) example_recognizer)
          (example_widgets ''Alice'' True) (fresh_world None [])) = Inr () \<and>
   usage_rows (store_of Sqlite_conn
       (snd (main (libs_of (Some [(0, 0, 2, 2)], Some [0.9]) example_recognizer)
          (example_widgets ''Alice'' True) (fresh_world None [])))) =
     [\<lparr>col_id = 1, col_name = ''Alice'', col_timestamp = ''2024-05-01T12:00:00'',
       col_image = [255, 216, 255], col_emotion = ''Happiness'', col_confidence = 0.7\<rparr>] \<and>
   init_database (page_head (fresh_world (Some ''postgresql://db/app'') [])) =
     (Inr (Some Pg_conn), page_head (pg_world [])) \<and>
   fst (main (libs_of (Some [(0, 0, 2, 2)], Some [0.9]) example_recognizer)
          (example_widgets [CHR ''M'', CHR 0x00] True)
          (fresh_world (Some ''postgresql://db/app'') [])) =
     Inl (ValueError ''A string literal cannot contain NUL (0x00) characters.'')"
proof -
  note bob = main_save_flow [of "libs_of (None, None) example_recognizer"
      "example_widgets ''Bob'' True" "fresh_world None []" "[255, 216, 255]" example_frame]
  note alice = main_save_flow [of "libs_of (Some [(0, 0, 2, 2)], Some [0.9]) example_recognizer"
      "example_widgets ''Alice'' True" "fresh_world None []" "[255, 216, 255]" example_frame
      "[[[1, 1, 1], [2, 2, 2]], [[4, 4, 4], [5, 5, 5]]]" "''Happiness''" "0.7" _ _ Sqlite_conn,
      THEN conjunct2, THEN conjunct2, THEN conjunct2]
  note mallory = main_save_flow [of "libs_of (Some [(0, 0, 2, 2)], Some [0.9]) example_recognizer"
      "example_widgets [CHR ''M'', CHR 0x00] True" "fresh_world (Some ''postgresql://db/app'') []"
      "[255, 216, 255]" example_frame
      "[[[1, 1, 1], [2, 2, 2]], [[4, 4, 4], [5, 5, 5]]]" "''Happiness''" "0.7"
      "Some Pg_conn" "page_head (pg_world [])" Pg_conn,
      THEN conjunct2, THEN conjunct2, THEN conjunct2]
  have b: "buttons (snd (main (libs_of (None, None) example_recognizer)
             (example_widgets ''Bob'' True) (fresh_world None []))) = buttons (fresh_world None []) \<and>
           all_rows (snd (main (libs_of (None, None) example_recognizer)
             (example_widgets ''Bob'' True) (fresh_world None []))) = all_rows (fresh_world None [])"
    using bob bob_no_face(1) by blast
  have nm: "text_input_name (example_widgets ''Bob'' True) \<noteq> []"
    by (simp add: example_widgets_def)
  have w: "warnings (snd (main (libs_of (None, None) example_recognizer)
             (example_widgets ''Bob'' True) (fresh_world None []))) =
           Suc (warnings (fresh_world None []))"
    using bob bob_no_face(2-4) bob_completes nm by blast
  have pre: "faults (fresh_world None []) = []"
    "Sqlite_conn = (if USE_POSTGRES (fresh_world None []) then Pg_conn else Sqlite_conn)"
    "''usage'' \<in> set (map obj_name (catalog (store_of Sqlite_conn (fresh_world None [])))) \<longrightarrow>
     Table ''usage'' \<in> set (catalog (store_of Sqlite_conn (fresh_world None [])))"
    "accepted Sqlite_conn (Insert_into_usage (text_input_name (example_widgets ''Alice'' True))
       (utcnow_isoformat (fresh_world None [])) [255, 216, 255] ''Happiness'' 0.7)"
    by (simp_all add: world_defs)
  have a: "fst (main (libs_of (Some [(0, 0, 2, 2)], Some [0.9]) example_recognizer)
          (example_widgets ''Alice'' True) (fresh_world None [])) = Inr () \<and>
      usage_rows (store_of Sqlite_conn
         (snd (main (libs_of (Some [(0, 0, 2, 2)], Some [0.9]) example_recognizer)
            (example_widgets ''Alice'' True) (fresh_world None [])))) =
        usage_rows (store_of Sqlite_conn (fresh_world None [])) @
          [\<lparr>col_id = Suc (id_seq (store_of Sqlite_conn (fresh_world None []))),
            col_name = text_input_name (example_widgets ''Alice'' True),
            col_timestamp = utcnow_isoformat (fresh_world None []), col_image = [255, 216, 255],
            col_emotion = ''Happiness'', col_confidence = 0.7\<rparr>]"
    using alice alice_face pre by blast
  have mnm: "text_input_name (example_widgets [CHR ''M'', CHR 0x00] True) \<noteq> []"
    by (simp add: example_widgets_def)
  have "main (libs_of (Some [(0, 0, 2, 2)], Some [0.9]) example_recognizer)
          (example_widgets [CHR ''M'', CHR 0x00] True)
          (fresh_world (Some ''postgresql://db/app'') []) =
        (case save_result (Some Pg_conn)
                (text_input_name (example_widgets [CHR ''M'', CHR 0x00] True)) [255, 216, 255]
                ''Happiness'' 0.7 None
                (offered (libs_of (Some [(0, 0, 2, 2)], Some [0.9]) example_recognizer)
                   (example_widgets [CHR ''M'', CHR 0x00] True) ''Happiness'' 0.7
                   (page_head (pg_world []))) of
           (Inl e, w6) \<Rightarrow> (Inl e, w6)
         | (Inr u, w6) \<Rightarrow>
            render_history (Some Pg_conn)
              (w6\<lparr>st_events := st_events w6 @ [St_toast ''Result saved to database.'']\<rparr>))"
    using mallory mallory_face(1,2,4,5,6) mnm mallory_refused(1) by blast
  then have m: "fst (main (libs_of (Some [(0, 0, 2, 2)], Some [0.9]) example_recognizer)
          (example_widgets [CHR ''M'', CHR 0x00] True)
          (fresh_world (Some ''postgresql://db/app'') [])) =
     Inl (ValueError ''A string literal cannot contain NUL (0x00) characters.'')"
    using mallory_refused(2) by (simp add: mallory_face(3) split: prod.splits sum.splits)
  show ?thesis
    using b w a m mallory_refused(1) bob_no_face(1,2) bob_completes alice_face(1,4,6) pre(1)
    by (simp add: world_defs buttons_def warnings_def all_rows_def example_widgets_def
          accepted_def)
qed

lemma raises_only_ret: "raises_only P (ret x)"
  by (simp add: raises_only_def ret_def)

lemma raises_only_bindp:
  "raises_only P m \<Longrightarrow> (\<And>x. raises_only P (f x)) \<Longrightarrow> raises_only P (bindp m f)"
  unfolding raises_only_def bindp_def
  by (auto split: prod.splits sum.splits) (metis fst_conv sum.simps(5))+

lemma raises_only_driver_call: "raises_only is_psycopg2_Error (driver_call Pg_conn)"
  by (auto simp: raises_only_def driver_call_def split: list.splits option.splits)

lemma raises_only_execute:
  "accepted Pg_conn s \<Longrightarrow> raises_only is_psycopg2_Error (execute Pg_conn s)"
  unfolding execute_accepted
  by (intro raises_only_bindp raises_only_driver_call)
     (auto simp: raises_only_def split: sum.splits)

lemma bindp_connect:
  "bindp (psycopg2_connect url) f = bindp (driver_call Pg_conn) (\<lambda>_. f Pg_conn)"
  by (rule ext) (simp add: psycopg2_connect_def bindp_def ret_def split: prod.splits sum.splits)

lemma bindp_cursor: "bindp (cursor (Some c)) f = bindp (driver_call c) (\<lambda>_. f c)"
  by (rule ext) (simp add: bindp_def ret_def split: prod.splits sum.splits)

lemma bindp_reads: "bindp (reads g) f w = f (g w) w"
  by (simp add: bindp_def reads_def)

lemma try_environ:
  "database_url w = Some url \<Longrightarrow>
   try_except (bindp environ_DATABASE_URL f) P h w = try_except (f url) P h w"
  by (simp add: try_except_def bindp_def environ_DATABASE_URL_def)

lemma try_except_returns:
  assumes "raises_only P body" and "\<And>e w'. \<exists>x. fst (h e w') = Inr x"
  shows "\<exists>x. fst (try_except body P h w) = Inr x"
proof (cases "body w")
  case (Pair r w')
  show ?thesis
  proof (cases r)
    case (Inl e)
    then have "P e" using assms(1) Pair by (auto simp: raises_only_def dest: spec [of _ w])
    then show ?thesis using Pair Inl assms(2) by (simp add: try_except_def)
  next
    case (Inr x)
    then show ?thesis using Pair by (simp add: try_except_def)
  qed
qed

lemma init_database_networked_returns:
  assumes "USE_POSTGRES w"
  shows "\<exists>conn. fst (init_database w) = Inr conn"
proof -
  from assms obtain url where url: "database_url w = Some url"
    by (auto simp: USE_POSTGRES_def)
  let ?body = "bindp (psycopg2_connect url) (\<lambda>conn.
          bindp (cursor (Some conn)) (\<lambda>cur.
          bindp (execute cur (Create_table_if_not_exists ''usage'')) (\<lambda>_.
          bindp (execute cur
                  (Create_index_if_not_exists ''idx_timestamp'' ''usage'' ''timestamp'' True)) (\<lambda>_.
          bindp (execute cur
                  (Create_index_if_not_exists ''idx_name'' ''usage'' ''name'' False)) (\<lambda>_.
          bindp (commit (Some conn)) (\<lambda>_.
          ret (Some conn)))))))"
  have r: "raises_only is_psycopg2_Error ?body"
    unfolding bindp_connect bindp_cursor commit.simps
    by (intro raises_only_bindp raises_only_driver_call raises_only_execute raises_only_ret
          accepted_no_params)
  have "init_database w =
          try_except ?body is_psycopg2_Error
            (\<lambda>e. bindp (st (St_error (''PostgreSQL connection error: '' @ exn_str e))) (\<lambda>_.
                 ret None)) w"
    by (simp only: init_database_def bindp_reads assms if_True try_environ [OF url])
  moreover have "\<exists>x. fst (bindp (st ev) (\<lambda>_. ret None) w') = Inr (x :: connection option)"
    for ev w'
    by (simp add: bindp_def st_def ret_def)
  ultimately show ?thesis
    using try_except_returns [OF r, of _ w] by simp
qed


lemma init_database_embedded_returns:
  assumes "\<not> USE_POSTGRES w" and "list_all (\<lambda>f. f = None) (take 4 (faults w))"
  shows "\<exists>conn. fst (init_database w) = Inr conn"
  using assms
  by (auto simp: init_database_def prog_defs
           split: list.splits option.splits prod.splits sum.splits)

lemma main_built:
  "models_built (snd (main L ws w)) = models_built w @ built_by_main L ws w"
proof (cases rule: main_cases [of w L ws])
  case (init_raised e w2)
  then show ?thesis
    using init_database_obs(1) [OF init_raised(1)] by (simp add: page_head_obs built_by_main_def)
next
  case (no_input conn w2)
  obtain r6 w6 where r: "render_history conn (acquired ws (page_inputs L ws w2)) = (r6, w6)"
    by force
  show ?thesis
    using no_input r render_history_obs(1) [OF r] init_database_obs(1) [OF no_input(1)]
    by (simp add: page_head_obs page_inputs_obs built_by_main_def)
next
  case (decode_raised conn w2 r e)
  then show ?thesis
    using init_database_obs(1) [OF decode_raised(1)]
    by (simp add: page_head_obs page_inputs_obs built_by_main_def)
next
  case (image conn w2 r i)
  obtain r5 w5 where f: "infer_and_offer_save L ws conn (recognizer_of_page L ws)
                 (text_input_name ws) (device_of ws) (Some i) (Some r)
                 (acquired ws (page_inputs L ws w2)) = (r5, w5)" by force
  obtain r6 w6 where r: "render_history conn w5 = (r6, w6)" by force
  have m5: "models_built w5 = models_built w @ built_by_main L ws w"
    using infer_models [OF f] init_database_obs(1) [OF image(1)] image(1,2,3)
    by (simp add: page_head_obs page_inputs_obs built_by_main_def)
  show ?thesis
  proof (cases r5)
    case (Inl e)
    then show ?thesis using image(4) f m5 by simp
  next
    case (Inr u)
    then show ?thesis using image(4) f r m5 render_history_obs(1) [OF r] by simp
  qed
qed

text \<open>
  C3, as amended. Every call of \<open>detect_first_face\<close> constructs a face detector: the log
  of constructions grows by one detector per call. \<open>classify_emotion\<close> constructs nothing
  (it is a function of the recogniser it is given). Every run of \<open>main\<close> in which
  \<open>init_database\<close> returns constructs the recogniser anew, and a detector after it when a
  photograph was submitted and decoded and a name was entered; a run in which
  \<open>init_database\<close> raises constructs nothing. \<open>init_database\<close> returns in every run on the
  networked backend, and on the embedded backend when its four driver calls succeed.
\<close>

theorem models_built_per_call:
  "models_built (snd (detect_first_face L frame device w)) =
     models_built w @ [MTCNN_built (face_detector device)] \<and>
   models_built (snd (main L ws w')) = models_built w' @ built_by_main L ws w' \<and>
   (USE_POSTGRES w' \<or> list_all (\<lambda>f. f = None) (take 4 (faults w')) \<longrightarrow>
      (\<exists>ms. built_by_main L ws w' =
             Recognizer_built ''torch'' (selectbox_model ws) (device_of ws) # ms))"
proof -
  have "\<exists>conn. fst (init_database (page_head w')) = Inr conn"
    if "USE_POSTGRES w' \<or> list_all (\<lambda>f. f = None) (take 4 (faults w'))"
  proof (cases "USE_POSTGRES w'")
    case True
    then have "USE_POSTGRES (page_head w')" by (simp add: USE_POSTGRES_def page_head_def)
    then show ?thesis by (rule init_database_networked_returns)
  next
    case False
    then have "\<not> USE_POSTGRES (page_head w')"
      "list_all (\<lambda>f. f = None) (take 4 (faults (page_head w')))"
      using that by (simp_all add: USE_POSTGRES_def page_head_def)
    then show ?thesis by (rule init_database_embedded_returns)
  qed
  then show ?thesis
    using main_built [of L ws w'] by (auto simp: detect_first_face_world built_by_main_def)
qed

theorem models_built_per_call_witness:
  "USE_POSTGRES (fresh_world (Some ''postgresql://db/app'') [Some ''could not connect to server'']) \<and>
   built_by_main (libs_of (None, None) example_recognizer) (example_widgets ''Bob'' False)
     (fresh_world (Some ''postgresql://db/app'') [Some ''could not connect to server'']) =
     [Recognizer_built ''torch'' ''enet_b0_8_best_vgaf'' ''cpu'', MTCNN_built (face_detector ''cpu'')] \<and>
   models_built (snd (main (libs_of (None, None) example_recognizer) (example_widgets ''Bob'' False)
     (fresh_world (Some ''postgresql://db/app'') [Some ''could not connect to server'']))) =
     [Recognizer_built ''torch'' ''enet_b0_8_best_vgaf'' ''cpu'', MTCNN_built (face_detector ''cpu'')] \<and>
   list_all (\<lambda>f. f = None) (take 4 (faults (fresh_world None []))) \<and>
   models_built (snd (main (libs_of (None, None) example_recognizer) (example_widgets [] False)
     (fresh_world None []))) =
     [Recognizer_built ''torch'' ''enet_b0_8_best_vgaf'' ''cpu''] \<and>
   models_built (snd (detect_first_face (libs_of (None, None) example_recognizer) example_frame
     ''cpu'' (fresh_world None []))) = [MTCNN_built (face_detector ''cpu'')]"
proof -
  have b1: "built_by_main (libs_of (None, None) example_recognizer) (example_widgets ''Bob'' False)
     (fresh_world (Some ''postgresql://db/app'') [Some ''could not connect to server'']) =
     [Recognizer_built ''torch'' ''enet_b0_8_best_vgaf'' ''cpu'', MTCNN_built (face_detector ''cpu'')]"
    by (simp add: built_by_main_def init_database_def prog_defs world_defs page_head_def
          example_widgets_def libs_of_def submitted_def device_of_def)
  have b2: "built_by_main (libs_of (None, None) example_recognizer) (example_widgets [] False)
     (fresh_world None []) = [Recognizer_built ''torch'' ''enet_b0_8_best_vgaf'' ''cpu'']"
    by (simp add: built_by_main_def init_database_def prog_defs world_defs page_head_def
          example_widgets_def libs_of_def submitted_def device_of_def)
  note T1 = models_built_per_call [of "libs_of (None, None) example_recognizer" example_frame
      "''cpu''" "fresh_world None []" "example_widgets ''Bob'' False"
      "fresh_world (Some ''postgresql://db/app'') [Some ''could not connect to server'']"]
  note T2 = models_built_per_call [of "libs_of (None, None) example_recognizer" example_frame
      "''cpu''" "fresh_world None []" "example_widgets [] False" "fresh_world None []"]
  have e: "models_built (fresh_world u fs) = []" for u fs
    by (simp add: fresh_world_def)
  have m1: "models_built (snd (main (libs_of (None, None) example_recognizer)
      (example_widgets ''Bob'' False)
      (fresh_world (Some ''postgresql://db/app'') [Some ''could not connect to server'']))) =
     [Recognizer_built ''torch'' ''enet_b0_8_best_vgaf'' ''cpu'', MTCNN_built (face_detector ''cpu'')]"
    using T1 [THEN conjunct2, THEN conjunct1] by (simp only: b1 e append_Nil)
  have m2: "models_built (snd (main (libs_of (None, None) example_recognizer)
      (example_widgets [] False) (fresh_world None []))) =
     [Recognizer_built ''torch'' ''enet_b0_8_best_vgaf'' ''cpu'']"
    using T2 [THEN conjunct2, THEN conjunct1] by (simp only: b2 e append_Nil)
  have d: "models_built (snd (detect_first_face (libs_of (None, None) example_recognizer)
      example_frame ''cpu'' (fresh_world None []))) = [MTCNN_built (face_detector ''cpu'')]"
    using T1 [THEN conjunct1] by (simp only: e append_Nil)
  have u: "USE_POSTGRES (fresh_world (Some ''postgresql://db/app'') [Some ''could not connect to server''])"
    "list_all (\<lambda>f. f = None) (take 4 (faults (fresh_world None [])))"
    by (simp_all add: world_defs)
  show ?thesis
    using b1 m1 m2 d u by (simp only: simp_thms)
qed

text \<open>Two calls of \<open>detect_first_face\<close> in sequence, for the same device, construct two
  detectors; two runs of \<open>main\<close> in sequence, with the same widget values (the same model and
  device), construct two recognisers and two detectors.\<close>

theorem models_rebuilt_counterexample:
  "models_built (snd (detect_first_face (libs_of (None, None) example_recognizer) example_frame ''cpu''
     (snd (detect_first_face (libs_of (None, None) example_recognizer) example_frame ''cpu''
        (fresh_world None []))))) =
   [MTCNN_built (face_detector ''cpu''), MTCNN_built (face_detector ''cpu'')] \<and>
   models_built (snd (main (libs_of (None, None) example_recognizer) (example_widgets ''Bob'' False)
     (snd (main (libs_of (None, None) example_recognizer) (example_widgets ''Bob'' False)
        (fresh_world None []))))) =
   [Recognizer_built ''torch'' ''enet_b0_8_best_vgaf'' ''cpu'', MTCNN_built (face_detector ''cpu''),
    Recognizer_built ''torch'' ''enet_b0_8_best_vgaf'' ''cpu'', MTCNN_built (face_detector ''cpu'')]"
proof -
  have "models_built (snd (main (libs_of (None, None) example_recognizer) (example_widgets ''Bob'' False)
     (snd (main (libs_of (None, None) example_recognizer) (example_widgets ''Bob'' False)
        (fresh_world None []))))) =
   [Recognizer_built ''torch'' ''enet_b0_8_best_vgaf'' ''cpu'', MTCNN_built (face_detector ''cpu''),
    Recognizer_built ''torch'' ''enet_b0_8_best_vgaf'' ''cpu'', MTCNN_built (face_detector ''cpu'')]"
    by (simp add: main_def infer_and_offer_save_def acquire_image_def detect_first_face_def
        MTCNN_def new_recognizer_def init_database_def render_history_def prog_defs world_defs
        example_widgets_def libs_of_def Let_def is_Exception_def face_detector_def)
  then show ?thesis
    by (simp add: detect_first_face_world fresh_world_def)
qed

end
